theory Spec2Isabelle
  imports Complex_Main "HOL-Library.Multiset"
begin

section \<open>Sound-source follower: the filter pipeline and the callback controller\<close>

text \<open>
  A shallow embedding of \<^verbatim>\<open>src/turn_head_to_source.py\<close>. Angles and filtered values
  are NumPy/Python floats in the program; here they are real numbers, so rounding error
  of the floating-point unit is not part of the model. Time stamps, logging and the ROS
  transport are left out; what the node sends to its collaborators is kept as a list of
  events.
\<close>

subsection \<open>Constants\<close>

definition FILTER_LENGTH :: nat where
  "FILTER_LENGTH = 20"

definition BUFFER_LENGTH :: nat where
  "BUFFER_LENGTH = 30"

subsection \<open>The NumPy operations the program calls\<close>

datatype error = IndexError | ValueError

text \<open>\<^verbatim>\<open>np.hstack((new_value, history))\<close>: the scalar in front of the array.\<close>

definition np_hstack :: "real \<Rightarrow> real list \<Rightarrow> real list" where
  "np_hstack new_value history = new_value # history"

text \<open>\<^verbatim>\<open>np.roll(a, shift)\<close> for a non-negative shift: element \<open>i\<close> moves to
  position \<open>(i + shift) mod n\<close>, so the last \<open>shift\<close> elements wrap to the front.\<close>

definition np_roll :: "'a list \<Rightarrow> nat \<Rightarrow> 'a list" where
  "np_roll a shift =
     (if a = [] then []
      else drop (length a - shift mod length a) a @ take (length a - shift mod length a) a)"

definition np_mean :: "real list \<Rightarrow> real" where
  "np_mean a = sum_list a / real (length a)"

text \<open>\<^verbatim>\<open>np.median(a)\<close>: NumPy orders the array and takes the mean of the slice
  \<open>[n div 2, n div 2 + 1)\<close> when \<open>n\<close> is odd and of \<open>[n div 2 - 1, n div 2 + 1)\<close> when
  \<open>n\<close> is even. On an empty array NumPy returns NaN, which no real number stands for;
  the program never calls it on one (see \<open>TemporalMedian\<close>).\<close>

definition np_median :: "real list \<Rightarrow> real" where
  "np_median a =
     (let part = sort a; n = length a; index = n div 2
      in if n mod 2 = 1 then np_mean (take 1 (drop index part))
         else np_mean (take 2 (drop (index - 1) part)))"

text \<open>\<^verbatim>\<open>a.astype(int)\<close> on a float array is the C conversion of a double to a
  64-bit integer, element by element: the value is truncated toward zero, and when the
  truncated value does not fit in 64 bits the result is \<open>- 2 ^ 63\<close> (what the x86-64
  conversion gives). NaN and the infinities are not real numbers and are outside the
  model.\<close>

definition truncate_toward_zero :: "real \<Rightarrow> int" where
  "truncate_toward_zero v = (if 0 \<le> v then \<lfloor>v\<rfloor> else \<lceil>v\<rceil>)"

definition int64_cast :: "real \<Rightarrow> int" where
  "int64_cast v =
     (if - (2 ^ 63) \<le> truncate_toward_zero v \<and> truncate_toward_zero v < 2 ^ 63
      then truncate_toward_zero v
      else - (2 ^ 63))"

definition astype_int :: "real list \<Rightarrow> int list" where
  "astype_int a = map int64_cast a"

text \<open>Position of the first occurrence of a value.\<close>

fun index_of :: "'a list \<Rightarrow> 'a \<Rightarrow> nat" where
  "index_of [] v = 0"
| "index_of (u # us) v = (if u = v then 0 else Suc (index_of us v))"

text \<open>\<^verbatim>\<open>np.unique(buf, return_inverse=True)\<close>: the sorted distinct values, and for
  every element of the input its position among them.\<close>

definition np_unique :: "int list \<Rightarrow> int list \<times> nat list" where
  "np_unique a = (let u = remdups (sort a) in (u, map (index_of u) a))"

text \<open>\<^verbatim>\<open>np.bincount(x)\<close>: how often each of \<open>0 .. max x\<close> occurs; empty for an empty
  input.\<close>

definition np_bincount :: "nat list \<Rightarrow> nat list" where
  "np_bincount x = (if x = [] then [] else map (count_list x) [0 ..< Suc (fold max x 0)])"

text \<open>\<^verbatim>\<open>np.argmax(a)\<close>: the first position of the largest element; ValueError on an
  empty array.\<close>

definition np_argmax :: "nat list \<Rightarrow> error + nat" where
  "np_argmax a = (if a = [] then Inl ValueError else Inr (index_of a (fold max a 0)))"

subsection \<open>The filter pipeline\<close>

definition PolToCart :: "real \<Rightarrow> real \<Rightarrow> real \<times> real" where
  "PolToCart rho phi = (let x = rho * cos phi; y = rho * sin phi in (x, y))"

text \<open>In the last branch the history is not empty (the first branch took that case),
  so the assignment \<^verbatim>\<open>history[0] = new_value\<close> cannot raise.\<close>

definition TemporalMedian :: "real \<Rightarrow> real list \<Rightarrow> nat \<Rightarrow> real \<times> real list" where
  "TemporalMedian new_value history len =
     (if length history = 0 then
        (let history' = np_hstack new_value history; m = np_median history'
         in (m, history'))
      else if length history < len then
        (let history' = np_hstack new_value history; m = np_median history'
         in (m, history'))
      else
        (let history' = (np_roll history 1)[0 := new_value]; m = np_median history'
         in (m, history')))"

text \<open>\<^verbatim>\<open>buf[0] = new_value\<close> raises IndexError on an empty array.\<close>

definition DownSample :: "real \<Rightarrow> real list \<Rightarrow> error + real list" where
  "DownSample new_value buf =
     (let buf' = np_roll buf 1
      in if buf' = [] then Inl IndexError else Inr (buf'[0 := new_value]))"

definition GetMode :: "int list \<Rightarrow> error + int" where
  "GetMode buf =
     (case np_unique buf of
        (u, indices) \<Rightarrow>
          (case np_argmax (np_bincount indices) of
             Inl e \<Rightarrow> Inl e
           | Inr i \<Rightarrow> Inr (u ! i)))"

subsection \<open>Messages\<close>

record SoundSourceAngle =
  msg_angle :: real
  msg_is_valid :: bool

record Point =
  point_x :: real
  point_y :: real
  point_z :: real

record PointStamped =
  frame_id :: string
  point :: Point

datatype marker_type = ARROW

datatype marker_action = ADD

record Marker =
  marker_frame_id :: string
  marker_kind :: marker_type
  marker_act :: marker_action
  scale_x :: real
  scale_y :: real
  scale_z :: real
  color_a :: real
  orientation_w :: real
  points :: "Point list"

record PointHeadGoal =
  target :: PointStamped
  min_duration :: real
  max_velocity :: real

text \<open>What the node does to its collaborators, in order.\<close>

datatype event =
    Publish PointStamped
  | PublishMarker Marker
  | SendGoal PointHeadGoal
  | LogResult bool
  | Sleep real

fun is_SendGoal :: "event \<Rightarrow> bool" where
  "is_SendGoal (SendGoal g) = True"
| "is_SendGoal e = False"

subsection \<open>The controller\<close>

record Follower =
  angle :: "real list"
  buf :: "real list"
  counter :: int
  ignore_inputs :: bool
  initializtion :: bool

text \<open>The fields \<^verbatim>\<open>__init__\<close> sets (lines 76 to 81).\<close>

definition Follower_init :: Follower where
  "Follower_init =
     \<lparr>angle = replicate 1 0, buf = replicate BUFFER_LENGTH 0, counter = 0,
      ignore_inputs = False, initializtion = True\<rparr>"

text \<open>The transform listener asked for the frame a point is already in: it returns
  the point as it is.\<close>

definition same_frame_transform :: "string \<Rightarrow> PointStamped \<Rightarrow> PointStamped" where
  "same_frame_transform target_frame pt = pt"

text \<open>\<^verbatim>\<open>SetPointHead\<close> up to and including \<^verbatim>\<open>send_goal\<close> (lines 151 to 160). The
  transform listener is a collaborator and is a parameter \<open>tfp\<close>.\<close>

definition SetPointHead_send ::
  "(string \<Rightarrow> PointStamped \<Rightarrow> PointStamped) \<Rightarrow> PointStamped \<Rightarrow> Follower \<Rightarrow> Follower \<times> event list"
where
  "SetPointHead_send tfp pt s =
     (let corrected_point = tfp ''head_pan_link'' pt;
          goal = \<lparr>target = corrected_point, min_duration = 0.5, max_velocity = 1\<rparr>
      in (s\<lparr>ignore_inputs := True\<rparr>, [SendGoal goal]))"

text \<open>\<^verbatim>\<open>SetPointHead\<close> from the return of \<^verbatim>\<open>wait_for_result\<close> on (lines 164 to
  173); \<open>result\<close> is what the actuator reported.\<close>

definition SetPointHead_done :: "bool \<Rightarrow> Follower \<Rightarrow> Follower \<times> event list" where
  "SetPointHead_done result s =
     (s\<lparr>ignore_inputs := False, angle := [], buf := replicate BUFFER_LENGTH 0, counter := 0\<rparr>,
      [LogResult result, Sleep 2])"

definition SetPointHead ::
  "(string \<Rightarrow> PointStamped \<Rightarrow> PointStamped) \<Rightarrow> bool \<Rightarrow> PointStamped \<Rightarrow> Follower
     \<Rightarrow> Follower \<times> event list"
where
  "SetPointHead tfp result pt s =
     (case SetPointHead_send tfp pt s of
        (s1, sent) \<Rightarrow>
          (case SetPointHead_done result s1 of
             (s2, done) \<Rightarrow> (s2, sent @ done)))"

text \<open>The stamped point of lines 92 to 99 and 119 to 121, and the arrow marker of
  lines 93 to 99 and 123 to 140 (from the origin to the point).\<close>

definition stamped_point :: "real \<Rightarrow> real \<Rightarrow> PointStamped" where
  "stamped_point x y =
     \<lparr>frame_id = ''head_pan_link'', point = \<lparr>point_x = x, point_y = y, point_z = 0\<rparr>\<rparr>"

definition arrow_marker :: "real \<Rightarrow> real \<Rightarrow> Marker" where
  "arrow_marker x y =
     (let start_point = \<lparr>point_x = 0, point_y = 0, point_z = 0\<rparr>;
          end_point = \<lparr>point_x = x, point_y = y, point_z = 0\<rparr>
      in \<lparr>marker_frame_id = ''head_pan_link'', marker_kind = ARROW, marker_act = ADD,
          scale_x = 0.1, scale_y = 0.2, scale_z = 1, color_a = 1, orientation_w = 1,
          points = [start_point, end_point]\<rparr>)"

text \<open>The body of \<^verbatim>\<open>AudioCallback\<close> between \<^verbatim>\<open>lock.acquire()\<close> and
  \<^verbatim>\<open>lock.release()\<close>, with the call of line 144 as the parameter \<open>set_point_head\<close>.
  The assignment \<^verbatim>\<open>counter = 0\<close> of line 112 is to a local variable and changes
  nothing. An exception leaves the method before the lock is released.\<close>

definition AudioCallback_body ::
  "(PointStamped \<Rightarrow> Follower \<Rightarrow> Follower \<times> event list) \<Rightarrow> SoundSourceAngle \<Rightarrow> Follower
     \<Rightarrow> error + Follower \<times> event list"
where
  "AudioCallback_body set_point_head msg s =
     (if initializtion s then Inr (s\<lparr>initializtion := False\<rparr>, [])
      else if msg_is_valid msg \<and> \<not> ignore_inputs s then
        (case TemporalMedian (msg_angle msg) (angle s) FILTER_LENGTH of
           (direction, history) \<Rightarrow>
             (case DownSample direction (buf s) of
                Inl e \<Rightarrow> Inl e
              | Inr b \<Rightarrow>
                  if counter s = int BUFFER_LENGTH then
                    (case GetMode (astype_int b) of
                       Inl e \<Rightarrow> Inl e
                     | Inr voted \<Rightarrow>
                         (case PolToCart 3 ((real_of_int voted / 180) * pi) of
                            (x, y) \<Rightarrow>
                              (case set_point_head (stamped_point x y)
                                      (s\<lparr>angle := history,
                                         buf := map real_of_int (astype_int b)\<rparr>) of
                                 (s', evs) \<Rightarrow>
                                   Inr (s', [Publish (stamped_point x y),
                                             PublishMarker (arrow_marker x y)] @ evs))))
                  else
                    Inr (s\<lparr>angle := history, buf := b, counter := counter s + 1\<rparr>, [])))
      else Inr (s, []))"

text \<open>One whole callback, run without interruption: the actuator reports \<open>result\<close> if
  the callback commits.\<close>

definition AudioCallback ::
  "(string \<Rightarrow> PointStamped \<Rightarrow> PointStamped) \<Rightarrow> bool \<Rightarrow> SoundSourceAngle \<Rightarrow> Follower
     \<Rightarrow> error + Follower \<times> event list"
where
  "AudioCallback tfp result msg s = AudioCallback_body (SetPointHead tfp result) msg s"

text \<open>Callbacks one after the other; each input pairs a message with the report the
  actuator would give.\<close>

fun run :: "(string \<Rightarrow> PointStamped \<Rightarrow> PointStamped) \<Rightarrow> (SoundSourceAngle \<times> bool) list \<Rightarrow> Follower
     \<Rightarrow> error + Follower \<times> event list" where
  "run tfp [] s = Inr (s, [])"
| "run tfp ((msg, result) # rest) s =
     (case AudioCallback tfp result msg s of
        Inl e \<Rightarrow> Inl e
      | Inr (s1, evs1) \<Rightarrow>
          (case run tfp rest s1 of
             Inl e \<Rightarrow> Inl e
           | Inr (s2, evs2) \<Rightarrow> Inr (s2, evs1 @ evs2)))"

subsection \<open>The median filter fed a sequence of values\<close>

text \<open>The result of every call of \<open>TemporalMedian\<close> (filtered value and new history) when
  the values are pushed one after the other, the history of each call being the one the
  call before returned.\<close>

fun push_trace :: "real list \<Rightarrow> real list \<Rightarrow> (real \<times> real list) list" where
  "push_trace [] history = []"
| "push_trace (v # vs) history =
     (case TemporalMedian v history FILTER_LENGTH of
        (m, history') \<Rightarrow> (m, history') # push_trace vs history')"

text \<open>The median as the specification words it: the single central value of the ordered
  values for an odd count, the mean of the two central values for an even count.\<close>

definition standard_median :: "real list \<Rightarrow> real" where
  "standard_median a =
     (if odd (length a) then sort a ! (length a div 2)
      else (sort a ! (length a div 2 - 1) + sort a ! (length a div 2)) / 2)"

subsection \<open>Callbacks under the lock\<close>

text \<open>
  \<open>AudioCallback\<close> takes \<^verbatim>\<open>self.lock\<close> on entry and releases it on exit, and the
  blocking wait of \<open>SetPointHead\<close> happens in between. The node is the controller
  object, the lock, and the callbacks that have been invoked and stand in
  \<^verbatim>\<open>lock.acquire()\<close>. A callback that does not commit runs from acquire to release in
  one step; a callback that commits stops in the wait (\<open>in_wait\<close>) holding the lock, until
  the actuator reports. A callback that raised never reaches \<^verbatim>\<open>lock.release()\<close>.
\<close>

record node =
  follower :: Follower
  lock_held :: bool
  in_wait :: bool
  waiting :: "SoundSourceAngle list"
  trace :: "event list"

datatype action =
    Deliver SoundSourceAngle
  | Acquire nat
  | Complete bool

definition node_init :: node where
  "node_init =
     \<lparr>follower = Follower_init, lock_held = False, in_wait = False, waiting = [], trace = []\<rparr>"

text \<open>\<open>Deliver msg\<close>: the transport invokes the callback, which reaches
  \<^verbatim>\<open>lock.acquire()\<close>. \<open>Acquire i\<close>: the lock is free and the \<open>i\<close>-th waiting callback
  gets it (Python's lock promises no order). \<open>Complete result\<close>: the actuator reports
  and the committing callback runs to its release. A step that cannot happen is
  \<open>None\<close>.\<close>

fun step :: "(string \<Rightarrow> PointStamped \<Rightarrow> PointStamped) \<Rightarrow> action \<Rightarrow> node \<Rightarrow> node option" where
  "step tfp (Deliver msg) n = Some (n\<lparr>waiting := waiting n @ [msg]\<rparr>)"
| "step tfp (Acquire i) n =
     (if lock_held n \<or> length (waiting n) \<le> i then None
      else
        (case AudioCallback_body (SetPointHead_send tfp) (waiting n ! i) (follower n) of
           Inl e \<Rightarrow>
             Some (n\<lparr>lock_held := True, in_wait := False,
                     waiting := take i (waiting n) @ drop (Suc i) (waiting n)\<rparr>)
         | Inr (s', evs) \<Rightarrow>
             Some (n\<lparr>follower := s',
                     lock_held := list_ex is_SendGoal evs,
                     in_wait := list_ex is_SendGoal evs,
                     waiting := take i (waiting n) @ drop (Suc i) (waiting n),
                     trace := trace n @ evs\<rparr>)))"
| "step tfp (Complete result) n =
     (if lock_held n \<and> in_wait n then
        (case SetPointHead_done result (follower n) of
           (s', evs) \<Rightarrow>
             Some (n\<lparr>follower := s', lock_held := False, in_wait := False,
                     trace := trace n @ evs\<rparr>))
      else None)"

fun steps :: "(string \<Rightarrow> PointStamped \<Rightarrow> PointStamped) \<Rightarrow> action list \<Rightarrow> node \<Rightarrow> node option" where
  "steps tfp [] n = Some n"
| "steps tfp (a # as) n =
     (case step tfp a n of None \<Rightarrow> None | Some n' \<Rightarrow> steps tfp as n')"

text \<open>The schedule in which no callback overlaps another: each message is delivered
  and its callback gets the lock before the next message is delivered.\<close>

fun serial :: "SoundSourceAngle list \<Rightarrow> action list" where
  "serial [] = []"
| "serial (msg # msgs) = Deliver msg # Acquire 0 # serial msgs"

section \<open>Properties\<close>

subsection \<open>Array operations\<close>

lemma np_roll_one: "a \<noteq> [] \<Longrightarrow> np_roll a 1 = last a # butlast a"
proof -
  assume ne: "a \<noteq> []"
  then have "length a = 1 \<or> 1 < length a" by (cases a) auto
  then show ?thesis
  proof
    assume "length a = 1"
    then obtain v where "a = [v]" by (cases a) auto
    then show ?thesis by (simp add: np_roll_def)
  next
    assume l: "1 < length a"
    then have m: "1 mod length a = 1" by simp
    have "drop (length a - 1) a = [last a]"
      using ne by (metis append_butlast_last_id append_eq_conv_conj length_butlast)
    moreover have "take (length a - 1) a = butlast a"
      by (simp add: butlast_conv_take)
    ultimately show ?thesis using ne m by (simp add: np_roll_def)
  qed
qed

lemma np_roll_Suc0: "a \<noteq> [] \<Longrightarrow> np_roll a (Suc 0) = last a # butlast a"
  using np_roll_one by simp

lemma butlast_replicate_same: "butlast (replicate n x) = replicate (n - 1) x"
proof (cases n)
  case 0
  then show ?thesis by simp
next
  case (Suc k)
  have "replicate (Suc k) x = replicate k x @ [x]"
    by (simp add: replicate_append_same)
  then have "butlast (replicate (Suc k) x) = replicate k x"
    by (simp only: butlast_snoc)
  with Suc show ?thesis by simp
qed

lemma DownSample_ok: "b \<noteq> [] \<Longrightarrow> DownSample v b = Inr (v # butlast b)"
  by (simp add: DownSample_def Let_def np_roll_Suc0)

lemma DownSample_empty: "DownSample v [] = Inl IndexError"
  by (simp add: DownSample_def np_roll_def)

lemma TemporalMedian_snd:
  "snd (TemporalMedian v h len) = (if length h < len \<or> h = [] then v # h else v # butlast h)"
  by (auto simp: TemporalMedian_def Let_def np_hstack_def np_roll_Suc0)

lemma TemporalMedian_fst:
  "fst (TemporalMedian v h len) = np_median (snd (TemporalMedian v h len))"
  by (auto simp: TemporalMedian_def Let_def)

lemma np_median_single: "np_median [a] = a"
  by (simp add: np_median_def np_mean_def Let_def)

lemma np_median_pair: "np_median [a, b] = (a + b) / 2"
  by (simp add: np_median_def np_mean_def Let_def)

subsection \<open>The conversion to integers\<close>

lemma truncate_nonneg:
  "0 \<le> v \<Longrightarrow> real_of_int (truncate_toward_zero v) \<le> v
     \<and> v < real_of_int (truncate_toward_zero v) + 1"
  by (simp add: truncate_toward_zero_def)

lemma truncate_nonpos:
  "v \<le> 0 \<Longrightarrow> v \<le> real_of_int (truncate_toward_zero v)
     \<and> real_of_int (truncate_toward_zero v) < v + 1"
proof (cases "v = 0")
  case True
  then show ?thesis by (simp add: truncate_toward_zero_def)
next
  case False
  assume "v \<le> 0"
  with False have "v < 0" by simp
  then show ?thesis by (simp add: truncate_toward_zero_def) linarith
qed

lemma int64_cast_in_range:
  assumes "- (2 ^ 63) - 1 < v" "v < 2 ^ 63"
  shows "int64_cast v = truncate_toward_zero v"
proof (cases "0 \<le> v")
  case True
  have "\<lfloor>v\<rfloor> < 2 ^ 63" using assms(2) by (simp add: floor_less_iff)
  moreover have "0 \<le> \<lfloor>v\<rfloor>" using True by simp
  ultimately show ?thesis using True by (simp add: int64_cast_def truncate_toward_zero_def)
next
  case False
  have "- (2 ^ 63) \<le> \<lceil>v\<rceil>" using assms(1) by (simp add: le_ceiling_iff)
  moreover have "\<lceil>v\<rceil> \<le> 0" using False by (simp add: ceiling_le_iff)
  ultimately show ?thesis using False by (simp add: int64_cast_def truncate_toward_zero_def)
qed

lemma int64_cast_out_of_range:
  assumes "2 ^ 63 \<le> v \<or> v \<le> - (2 ^ 63) - 1"
  shows "int64_cast v = - (2 ^ 63)"
proof (cases "2 ^ 63 \<le> v")
  case True
  then have "(2 ^ 63 :: int) \<le> \<lfloor>v\<rfloor>" by (simp add: le_floor_iff)
  moreover have "(0 :: real) \<le> 2 ^ 63" by simp
  then have "0 \<le> v" using True by linarith
  ultimately show ?thesis by (simp add: int64_cast_def truncate_toward_zero_def)
next
  case False
  then have v: "v \<le> - (2 ^ 63) - 1" using assms by simp
  then have "\<lceil>v\<rceil> \<le> - (2 ^ 63) - 1" by (simp add: ceiling_le_iff)
  moreover have "(0 :: real) \<le> 2 ^ 63" by simp
  then have "\<not> 0 \<le> v" using v by linarith
  ultimately show ?thesis by (simp add: int64_cast_def truncate_toward_zero_def)
qed

lemma astype_int_truncates:
  assumes "i < length b" "- (2 ^ 63) - 1 < b ! i" "b ! i < 2 ^ 63"
  shows "(0 \<le> b ! i \<longrightarrow> real_of_int (astype_int b ! i) \<le> b ! i
                         \<and> b ! i < real_of_int (astype_int b ! i) + 1)
       \<and> (b ! i \<le> 0 \<longrightarrow> b ! i \<le> real_of_int (astype_int b ! i)
                         \<and> real_of_int (astype_int b ! i) < b ! i + 1)"
proof -
  have "astype_int b ! i = truncate_toward_zero (b ! i)"
    using assms by (simp add: astype_int_def int64_cast_in_range)
  then show ?thesis using truncate_nonneg [of "b ! i"] truncate_nonpos [of "b ! i"] by simp
qed

subsection \<open>The median filter\<close>

lemma TemporalMedian_window:
  assumes "length h \<le> len" "0 < len"
  shows "snd (TemporalMedian v h len) = take len (v # h)"
proof (cases "length h < len \<or> h = []")
  case True
  then show ?thesis using assms by (auto simp: TemporalMedian_snd)
next
  case False
  then have l: "length h = len" "h \<noteq> []" using assms by auto
  obtain n where n: "len = Suc n" using assms(2) by (cases len) auto
  have "take n h = butlast h" using l n by (simp add: butlast_conv_take)
  then show ?thesis using False n by (simp add: TemporalMedian_snd)
qed

lemma take_append_take: "take n (xs @ take n ys) = take n (xs @ ys)"
  by (simp add: min_def)

lemma push_trace_nth:
  assumes "length h \<le> FILTER_LENGTH" "k < length vs"
  shows "push_trace vs h ! k =
         (np_median (take FILTER_LENGTH (rev (take (Suc k) vs) @ h)),
          take FILTER_LENGTH (rev (take (Suc k) vs) @ h))"
  using assms
proof (induction vs arbitrary: h k)
  case Nil
  then show ?case by simp
next
  case (Cons v vs)
  have pos: "0 < FILTER_LENGTH" by (simp add: FILTER_LENGTH_def)
  obtain m h' where tm: "TemporalMedian v h FILTER_LENGTH = (m, h')"
    by (cases "TemporalMedian v h FILTER_LENGTH")
  have h': "h' = take FILTER_LENGTH (v # h)"
    using TemporalMedian_window [OF Cons.prems(1) pos, of v] tm by simp
  have m: "m = np_median h'" using TemporalMedian_fst [of v h FILTER_LENGTH] tm by simp
  show ?case
  proof (cases k)
    case 0
    then show ?thesis using tm h' m by simp
  next
    case (Suc j)
    then have j: "j < length vs" using Cons.prems(2) by simp
    have len: "length h' \<le> FILTER_LENGTH" using h' by simp
    have "take FILTER_LENGTH (rev (take (Suc j) vs) @ h')
          = take FILTER_LENGTH (rev (take (Suc j) vs) @ (v # h))"
      unfolding h' by (rule take_append_take)
    then show ?thesis
      using Cons.IH [OF len j] tm Suc by simp
  qed
qed

lemma np_median_standard:
  assumes "a \<noteq> []"
  shows "np_median a = standard_median a"
proof -
  let ?s = "sort a"
  let ?n = "length a"
  have n: "0 < ?n" using assms by simp
  have ls: "length ?s = ?n" by simp
  show ?thesis
  proof (cases "odd ?n")
    case True
    then have i: "?n div 2 < length ?s" using n by simp
    have "take 1 (drop (?n div 2) ?s) = [?s ! (?n div 2)]"
      using Cons_nth_drop_Suc [OF i, symmetric] by simp
    then show ?thesis using True
      by (simp add: np_median_def standard_median_def np_mean_def Let_def odd_iff_mod_2_eq_one)
  next
    case False
    then have e: "even ?n" by simp
    then have two: "2 \<le> ?n" using n by (metis One_nat_def less_2_cases_iff nat_less_le not_le odd_one)
    have i1: "?n div 2 - 1 < length ?s" and i2: "?n div 2 < length ?s"
      using two by simp_all
    have s: "Suc (?n div 2 - 1) = ?n div 2" using two by simp
    have "drop (?n div 2 - 1) ?s = ?s ! (?n div 2 - 1) # drop (?n div 2) ?s"
      using Cons_nth_drop_Suc [OF i1, symmetric] s by simp
    also have "drop (?n div 2) ?s = ?s ! (?n div 2) # drop (Suc (?n div 2)) ?s"
      using Cons_nth_drop_Suc [OF i2, symmetric] by simp
    finally have t2: "take 2 (drop (?n div 2 - 1) ?s) = [?s ! (?n div 2 - 1), ?s ! (?n div 2)]"
      by (simp add: numeral_2_eq_2)
    have "\<not> ?n mod 2 = 1" using e by presburger
    then have "np_median a = np_mean (take 2 (drop (?n div 2 - 1) ?s))"
      by (simp add: np_median_def Let_def)
    also have "\<dots> = np_mean [?s ! (?n div 2 - 1), ?s ! (?n div 2)]"
      by (simp only: t2)
    also have "\<dots> = (?s ! (?n div 2 - 1) + ?s ! (?n div 2)) / 2"
      by (simp add: np_mean_def)
    finally show ?thesis using e by (simp add: standard_median_def)
  qed
qed

lemma sort_rev: "sort (rev xs) = sort (xs :: real list)"
  by (rule properties_for_sort) simp_all

lemma standard_median_rev: "standard_median (rev a) = standard_median a"
  by (simp add: standard_median_def sort_rev)

text \<open>
  C5. Starting from an empty history, the \<open>k+1\<close>-th push returns the standard median
  of the window, and the history it leaves is the window, newest first. The window is the
  last \<open>min (k+1) 20\<close> of the values pushed so far: all of them for up to 20 pushes,
  and from then on the 20 most recent, the oldest having been dropped.
\<close>

theorem median_filter_window:
  assumes "k < length vs"
  shows "push_trace vs [] ! k =
           (standard_median (drop (Suc k - FILTER_LENGTH) (take (Suc k) vs)),
            rev (drop (Suc k - FILTER_LENGTH) (take (Suc k) vs)))
         \<and> length (drop (Suc k - FILTER_LENGTH) (take (Suc k) vs)) = min (Suc k) FILTER_LENGTH"
proof -
  let ?w = "drop (Suc k - FILTER_LENGTH) (take (Suc k) vs)"
  have lt: "length (take (Suc k) vs) = Suc k" using assms by simp
  have w: "take FILTER_LENGTH (rev (take (Suc k) vs) @ []) = rev ?w"
    using lt by (simp add: take_rev)
  have ne: "rev ?w \<noteq> []" using lt by (simp add: FILTER_LENGTH_def)
  have "push_trace vs [] ! k = (np_median (rev ?w), rev ?w)"
    using push_trace_nth [of "[]" k vs] assms w by simp
  moreover have "np_median (rev ?w) = standard_median ?w"
    using np_median_standard [OF ne] standard_median_rev by simp
  moreover have "length ?w = min (Suc k) FILTER_LENGTH" using lt by (simp add: min_def)
  ultimately show ?thesis by simp
qed

theorem median_filter_window_witness:
  "(2::nat) < length [5, 1, 4 :: real]
   \<and> push_trace [5, 1, 4] [] ! 2 = (4, [4, 1, 5])"
  using median_filter_window [of 2 "[5, 1, 4]"]
  by (simp add: FILTER_LENGTH_def standard_median_def)

subsection \<open>The mode\<close>

lemma index_of_mem: "v \<in> set xs \<Longrightarrow> index_of xs v < length xs \<and> xs ! index_of xs v = v"
  by (induction xs) auto

lemma index_of_first: "j < index_of xs v \<Longrightarrow> xs ! j \<noteq> v"
proof (induction xs arbitrary: j)
  case Nil
  then show ?case by simp
next
  case (Cons u us)
  then show ?case by (cases j) (auto split: if_splits)
qed

lemma index_of_nth: "distinct xs \<Longrightarrow> i < length xs \<Longrightarrow> index_of xs (xs ! i) = i"
proof (induction xs arbitrary: i)
  case Nil
  then show ?case by simp
next
  case (Cons u us)
  then show ?case by (cases i) auto
qed

lemma fold_max_Max: "fold max xs (0::nat) = Max (set (0 # xs))"
  by (simp only: Max.set_eq_fold)

lemma fold_max_ge: "x \<in> set xs \<Longrightarrow> x \<le> fold max xs (0::nat)"
  by (simp add: fold_max_Max)

lemma fold_max_mem: "xs \<noteq> [] \<Longrightarrow> fold max xs (0::nat) \<in> set xs"
proof -
  assume ne: "xs \<noteq> []"
  have "Max (set (0 # xs)) \<in> set (0 # xs)" by (rule Max_in) auto
  then have "fold max xs 0 = 0 \<or> fold max xs 0 \<in> set xs" by (simp add: fold_max_Max)
  moreover have "fold max xs 0 = 0 \<Longrightarrow> fold max xs 0 \<in> set xs"
  proof -
    assume z: "fold max xs 0 = 0"
    obtain x where x: "x \<in> set xs" using ne by (cases xs) auto
    then have "x \<le> 0" using fold_max_ge [OF x] z by simp
    then show ?thesis using x z by simp
  qed
  ultimately show ?thesis by blast
qed

lemma count_inverse:
  assumes "distinct u" "i < length u" "set a \<subseteq> set u"
  shows "count_list (map (index_of u) a) i = count_list a (u ! i)"
  using assms(3)
proof (induction a)
  case Nil
  then show ?case by simp
next
  case (Cons x xs)
  then have xu: "x \<in> set u" by simp
  have "index_of u x = i \<longleftrightarrow> x = u ! i"
    using index_of_mem [OF xu] index_of_nth [OF assms(1,2)] by auto
  with Cons show ?case by simp
qed

lemma max_inverse:
  assumes "a \<noteq> []" "distinct u" "sorted u" "set u = set (a::int list)"
  shows "Suc (fold max (map (index_of u) a) 0) = length u"
proof -
  have une: "u \<noteq> []" using assms by auto
  have "last u \<in> set a" using une assms(4) by (metis last_in_set)
  moreover have "index_of u (last u) = length u - 1"
    using index_of_nth [OF assms(2), of "length u - 1"] une by (simp add: last_conv_nth)
  ultimately have "length u - 1 \<in> set (map (index_of u) a)" by force
  then have lo: "length u - 1 \<le> fold max (map (index_of u) a) 0" by (rule fold_max_ge)
  have "fold max (map (index_of u) a) 0 \<in> set (map (index_of u) a)"
    by (rule fold_max_mem) (simp add: assms(1))
  then obtain x where "x \<in> set a" "fold max (map (index_of u) a) 0 = index_of u x" by auto
  then have "fold max (map (index_of u) a) 0 < length u"
    using index_of_mem [of x u] assms(4) by simp
  with lo show ?thesis by linarith
qed

lemma bincount_unique:
  assumes "a \<noteq> []"
  shows "np_bincount (snd (np_unique a)) = map (count_list a) (fst (np_unique a))"
proof -
  let ?u = "remdups (sort a)"
  have p: "distinct ?u" "sorted ?u" "set ?u = set a" by (simp_all add: sorted_remdups)
  have "np_bincount (map (index_of ?u) a) = map (count_list (map (index_of ?u) a)) [0 ..< length ?u]"
    using assms max_inverse [OF assms p] by (simp add: np_bincount_def)
  also have "\<dots> = map (\<lambda>i. count_list a (?u ! i)) [0 ..< length ?u]"
    using p by (simp add: count_inverse)
  also have "\<dots> = map (count_list a) ?u"
    by (rule nth_equalityI) simp_all
  finally show ?thesis by (simp add: np_unique_def Let_def)
qed

lemma GetMode_eq:
  assumes "a \<noteq> []"
  shows "GetMode a =
         Inr (remdups (sort a)
                ! index_of (map (count_list a) (remdups (sort a)))
                    (fold max (map (count_list a) (remdups (sort a))) 0))"
proof -
  obtain u ix where ui: "np_unique a = (u, ix)" by (cases "np_unique a")
  then have u: "u = remdups (sort a)" by (auto simp: np_unique_def Let_def)
  have "set u = set a" using u by simp
  then have ne: "u \<noteq> []" using assms by auto
  have "np_bincount ix = map (count_list a) u"
    using bincount_unique [OF assms] ui by simp
  then show ?thesis
    using ui u ne by (simp add: GetMode_def np_argmax_def)
qed

lemma GetMode_nonempty:
  assumes "a \<noteq> []"
  shows "\<exists>m. GetMode a = Inr m \<and> m \<in> set a
           \<and> (\<forall>v. count_list a v \<le> count_list a m)
           \<and> (\<forall>v. count_list a v = count_list a m \<longrightarrow> m \<le> v)"
proof -
  let ?u = "remdups (sort a)"
  let ?cs = "map (count_list a) ?u"
  let ?M = "fold max ?cs 0"
  let ?i = "index_of ?cs ?M"
  have p: "distinct ?u" "sorted ?u" "set ?u = set a" by (simp_all add: sorted_remdups)
  have ne: "?cs \<noteq> []" using assms p(3) by (metis map_is_Nil_conv set_empty)
  have Mmem: "?M \<in> set ?cs" by (rule fold_max_mem [OF ne])
  have i: "?i < length ?u" "?cs ! ?i = ?M" using index_of_mem [OF Mmem] by simp_all
  then have cnt: "count_list a (?u ! ?i) = ?M" by simp
  have mem: "?u ! ?i \<in> set a" using i(1) p(3) nth_mem by blast
  have pos: "0 < ?M" using mem cnt by (metis count_list_0_iff gr0I) 
  have le: "count_list a v \<le> ?M" for v
  proof (cases "v \<in> set a")
    case True
    then have "count_list a v \<in> set ?cs" using p(3) by simp
    then show ?thesis by (rule fold_max_ge)
  next
    case False
    then show ?thesis by (simp add: count_list_0_iff)
  qed
  have tie: "?u ! ?i \<le> v" if "count_list a v = ?M" for v
  proof -
    have "v \<in> set a" using that pos by (metis count_list_0_iff less_numeral_extra(3))
    then obtain j where j: "j < length ?u" "?u ! j = v" using p(3) by (metis in_set_conv_nth)
    then have "?cs ! j = ?M" using that by simp
    then have "\<not> j < ?i" using index_of_first [of j ?cs ?M] by auto
    then have "?i \<le> j" by simp
    then show ?thesis using sorted_nth_mono [OF p(2) _ j(1)] j(2) by blast
  qed
  have g: "GetMode a = Inr (?u ! ?i)" by (rule GetMode_eq [OF assms])
  have le': "\<forall>v. count_list a v \<le> count_list a (?u ! ?i)"
    unfolding cnt using le by blast
  have tie': "\<forall>v. count_list a v = count_list a (?u ! ?i) \<longrightarrow> ?u ! ?i \<le> v"
    unfolding cnt using tie by blast
  show ?thesis
    using g mem le' tie' by blast
qed

text \<open>
  C6. \<open>GetMode\<close> is a function of the buffer content alone. On every non-empty buffer
  it returns a value of the buffer that no value occurs more often than, and every value
  that occurs as often is at least as large: ties go to the smallest tied value. On
  \<open>[10, 10, 20, 20, 5]\<close> it returns 10.
\<close>

theorem GetMode_most_frequent_smallest:
  "(a \<noteq> [] \<longrightarrow>
      (\<exists>m. GetMode a = Inr m \<and> m \<in> set a
         \<and> (\<forall>v. count_list a v \<le> count_list a m)
         \<and> (\<forall>v. count_list a v = count_list a m \<longrightarrow> m \<le> v)))
   \<and> GetMode [10, 10, 20, 20, 5] = Inr 10"
proof
  show "a \<noteq> [] \<longrightarrow>
      (\<exists>m. GetMode a = Inr m \<and> m \<in> set a
         \<and> (\<forall>v. count_list a v \<le> count_list a m)
         \<and> (\<forall>v. count_list a v = count_list a m \<longrightarrow> m \<le> v))"
    using GetMode_nonempty by blast
  show "GetMode [10, 10, 20, 20, 5] = Inr 10"
    by (simp add: GetMode_def np_unique_def np_argmax_def np_bincount_def)
qed

theorem GetMode_most_frequent_smallest_witness:
  "[7::int, 3, 7, 3, 9] \<noteq> []
   \<and> (\<exists>m. GetMode [7::int, 3, 7, 3, 9] = Inr m \<and> m \<in> set [7::int, 3, 7, 3, 9]
         \<and> (\<forall>v. count_list [7::int, 3, 7, 3, 9] v \<le> count_list [7::int, 3, 7, 3, 9] m)
         \<and> (\<forall>v. count_list [7::int, 3, 7, 3, 9] v = count_list [7::int, 3, 7, 3, 9] m \<longrightarrow> m \<le> v))
   \<and> GetMode [7::int, 3, 7, 3, 9] = Inr 3"
proof -
  have ne: "[7::int, 3, 7, 3, 9] \<noteq> []" by simp
  have v: "GetMode [7::int, 3, 7, 3, 9] = Inr 3"
    by (simp add: GetMode_def np_unique_def np_argmax_def np_bincount_def)
  show ?thesis
    using ne v GetMode_most_frequent_smallest [of "[7::int, 3, 7, 3, 9]"] by blast
qed

subsection \<open>One callback\<close>

lemma body_init:
  "initializtion s \<Longrightarrow> AudioCallback_body sph msg s = Inr (s\<lparr>initializtion := False\<rparr>, [])"
  by (simp add: AudioCallback_body_def)

lemma body_listen:
  assumes "\<not> initializtion s" "msg_is_valid msg" "\<not> ignore_inputs s"
    and "buf s \<noteq> []" "counter s \<noteq> int BUFFER_LENGTH"
  shows "AudioCallback_body sph msg s =
         Inr (s\<lparr>angle := snd (TemporalMedian (msg_angle msg) (angle s) FILTER_LENGTH),
                buf := fst (TemporalMedian (msg_angle msg) (angle s) FILTER_LENGTH)
                         # butlast (buf s),
                counter := counter s + 1\<rparr>, [])"
  using assms by (simp add: AudioCallback_body_def DownSample_ok split: prod.splits)

lemma body_commit:
  assumes "\<not> initializtion s" "msg_is_valid msg" "\<not> ignore_inputs s"
    and "buf s \<noteq> []" "counter s = int BUFFER_LENGTH"
    and "GetMode (astype_int (fst (TemporalMedian (msg_angle msg) (angle s) FILTER_LENGTH)
                              # butlast (buf s))) = Inr d"
  shows "AudioCallback_body sph msg s =
         (case sph (stamped_point (3 * cos (real_of_int d / 180 * pi))
                                  (3 * sin (real_of_int d / 180 * pi)))
                   (s\<lparr>angle := snd (TemporalMedian (msg_angle msg) (angle s) FILTER_LENGTH),
                      buf := map real_of_int
                               (astype_int (fst (TemporalMedian (msg_angle msg) (angle s) FILTER_LENGTH)
                                            # butlast (buf s)))\<rparr>) of
            (s', evs) \<Rightarrow>
              Inr (s', [Publish (stamped_point (3 * cos (real_of_int d / 180 * pi))
                                               (3 * sin (real_of_int d / 180 * pi))),
                        PublishMarker (arrow_marker (3 * cos (real_of_int d / 180 * pi))
                                                    (3 * sin (real_of_int d / 180 * pi)))] @ evs))"
proof -
  obtain m h where tm: "TemporalMedian (msg_angle msg) (angle s) FILTER_LENGTH = (m, h)"
    by (cases "TemporalMedian (msg_angle msg) (angle s) FILTER_LENGTH")
  with assms(6) have g: "GetMode (astype_int (m # butlast (buf s))) = Inr d" by simp
  show ?thesis
    using assms(1-5) tm g
    by (simp add: AudioCallback_body_def DownSample_ok PolToCart_def Let_def)
qed

lemma astype_int_nonempty: "astype_int (v # b) \<noteq> []"
  by (simp add: astype_int_def)

lemma commit_mode_exists:
  "\<exists>d. GetMode (astype_int (v # b)) = Inr d"
  using GetMode_nonempty [OF astype_int_nonempty] by blast

lemma callback_commit:
  assumes "\<not> initializtion s" "msg_is_valid msg" "\<not> ignore_inputs s"
    and "buf s \<noteq> []" "counter s = int BUFFER_LENGTH"
    and "GetMode (astype_int (fst (TemporalMedian (msg_angle msg) (angle s) FILTER_LENGTH)
                              # butlast (buf s))) = Inr d"
  shows "AudioCallback tfp result msg s =
         Inr (s\<lparr>angle := [], buf := replicate BUFFER_LENGTH 0, counter := 0\<rparr>,
              [Publish (stamped_point (3 * cos (real_of_int d / 180 * pi))
                                      (3 * sin (real_of_int d / 180 * pi))),
               PublishMarker (arrow_marker (3 * cos (real_of_int d / 180 * pi))
                                           (3 * sin (real_of_int d / 180 * pi))),
               SendGoal \<lparr>target = tfp ''head_pan_link''
                                    (stamped_point (3 * cos (real_of_int d / 180 * pi))
                                                   (3 * sin (real_of_int d / 180 * pi))),
                         min_duration = 0.5, max_velocity = 1\<rparr>,
               LogResult result, Sleep 2])"
  using assms(1,3)
  by (simp add: AudioCallback_def body_commit [OF assms] SetPointHead_def SetPointHead_send_def
      SetPointHead_done_def Let_def)

lemma run_append:
  "run tfp (xs @ ys) s =
     (case run tfp xs s of
        Inl e \<Rightarrow> Inl e
      | Inr (s1, evs1) \<Rightarrow>
          (case run tfp ys s1 of
             Inl e \<Rightarrow> Inl e
           | Inr (s2, evs2) \<Rightarrow> Inr (s2, evs1 @ evs2)))"
  by (induction xs arbitrary: s) (auto split: sum.splits prod.splits)

lemma run_listen:
  assumes "\<not> initializtion s" "\<not> ignore_inputs s" "buf s \<noteq> []"
    and "\<forall>i \<in> set inputs. msg_is_valid (fst i)"
    and "counter s + int (length inputs) \<le> int BUFFER_LENGTH"
  shows "\<exists>s'. run tfp inputs s = Inr (s', [])
            \<and> counter s' = counter s + int (length inputs)
            \<and> \<not> initializtion s' \<and> \<not> ignore_inputs s'
            \<and> length (buf s') = length (buf s)"
  using assms
proof (induction inputs arbitrary: s)
  case Nil
  then show ?case by simp
next
  case (Cons i inputs)
  obtain msg result where i: "i = (msg, result)" by (cases i)
  let ?s1 = "s\<lparr>angle := snd (TemporalMedian (msg_angle msg) (angle s) FILTER_LENGTH),
               buf := fst (TemporalMedian (msg_angle msg) (angle s) FILTER_LENGTH)
                        # butlast (buf s),
               counter := counter s + 1\<rparr>"
  have v: "msg_is_valid msg" using Cons.prems(4) i by simp
  have c: "counter s \<noteq> int BUFFER_LENGTH" using Cons.prems(5) by simp
  have one: "AudioCallback tfp result msg s = Inr (?s1, [])"
    unfolding AudioCallback_def
    by (rule body_listen [OF Cons.prems(1) v Cons.prems(2,3) c])
  have "\<exists>s'. run tfp inputs ?s1 = Inr (s', [])
            \<and> counter s' = counter ?s1 + int (length inputs)
            \<and> \<not> initializtion s' \<and> \<not> ignore_inputs s'
            \<and> length (buf s') = length (buf ?s1)"
    using Cons.prems by (intro Cons.IH) simp_all
  then obtain s' where s': "run tfp inputs ?s1 = Inr (s', [])"
    "counter s' = counter ?s1 + int (length inputs)"
    "\<not> initializtion s'" "\<not> ignore_inputs s'" "length (buf s') = length (buf ?s1)"
    by blast
  have "length (buf ?s1) = length (buf s)" using Cons.prems(3) by (cases "buf s") simp_all
  then show ?case using one s' i by simp
qed

lemma body_skip:
  "\<not> initializtion s \<Longrightarrow> \<not> (msg_is_valid msg \<and> \<not> ignore_inputs s)
     \<Longrightarrow> AudioCallback_body sph msg s = Inr (s, [])"
  by (auto simp: AudioCallback_body_def)

lemma body_raise:
  "\<not> initializtion s \<Longrightarrow> msg_is_valid msg \<Longrightarrow> \<not> ignore_inputs s \<Longrightarrow> buf s = []
     \<Longrightarrow> AudioCallback_body sph msg s = Inl IndexError"
  by (simp add: AudioCallback_body_def DownSample_empty split: prod.splits)

lemma callback_events:
  assumes "AudioCallback tfp result msg s = Inr (s', evs)" "evs \<noteq> []"
  shows "\<not> initializtion s \<and> msg_is_valid msg \<and> \<not> ignore_inputs s \<and> buf s \<noteq> []
         \<and> counter s = int BUFFER_LENGTH"
proof -
  have i: "\<not> initializtion s"
    using assms by (auto simp: AudioCallback_def body_init)
  have v: "msg_is_valid msg \<and> \<not> ignore_inputs s"
    using assms i body_skip [of s msg "SetPointHead tfp result"]
    by (auto simp: AudioCallback_def)
  have b: "buf s \<noteq> []"
    using assms i v body_raise [of s msg "SetPointHead tfp result"]
    by (auto simp: AudioCallback_def)
  have "counter s = int BUFFER_LENGTH"
  proof (rule ccontr)
    assume "counter s \<noteq> int BUFFER_LENGTH"
    then show False
      using assms body_listen [of s msg "SetPointHead tfp result"] i v b
      by (simp add: AudioCallback_def)
  qed
  with i v b show ?thesis by simp
qed

lemma half_not_int: "(91 / 2 :: real) \<notin> \<int>"
proof
  assume "(91 / 2 :: real) \<in> \<int>"
  then obtain n :: int where "(91 / 2 :: real) = of_int n" by (rule Ints_cases)
  then have "real_of_int (2 * n) = real_of_int 91" by simp
  then have "2 * n = 91" by (simp only: of_int_eq_iff)
  then show False by presburger
qed

subsection \<open>Thirty valid samples of one angle from startup\<close>

lemma np_median_replicate: "0 < n \<Longrightarrow> np_median (replicate n x) = x"
proof -
  assume n: "0 < n"
  then have "standard_median (replicate n x) = x"
    by (simp add: standard_median_def)
  then show ?thesis
    using n np_median_standard [of "replicate n x"] by simp
qed

lemma GetMode_replicate: "0 < n \<Longrightarrow> GetMode (replicate n d) = Inr d"
proof -
  assume n: "0 < n"
  then have "replicate n d \<noteq> []" by simp
  then obtain m where m: "GetMode (replicate n d) = Inr m" "m \<in> set (replicate n d)"
    using GetMode_nonempty [of "replicate n d"] by blast
  from m(2) have "m = d" by simp
  with m(1) show ?thesis by simp
qed

lemma Cons_replicate_numeral:
  "x # replicate 19 x = replicate 20 x" "x # replicate 29 x = replicate 30 x"
  by (simp_all add: replicate_Suc [symmetric] del: replicate_Suc)

lemma sort_replicate_snoc_zero_ge:
  "0 \<le> x \<Longrightarrow> sort (replicate n x @ [0 :: real]) = 0 # replicate n x"
  by (rule properties_for_sort) simp_all

lemma np_median_constant:
  assumes "2 \<le> n" "0 \<le> x"
  shows "np_median (take 20 (replicate n x @ [0])) = x"
proof (cases "20 \<le> n")
  case True
  then have "take 20 (replicate n x @ [0 :: real]) = replicate 20 x"
    by (simp add: min_def)
  then show ?thesis by (simp add: np_median_replicate)
next
  case False
  then have t: "take 20 (replicate n x @ [0 :: real]) = replicate n x @ [0]" by simp
  obtain k where k: "Suc n div 2 = Suc k" "k < n"
    using assms(1) by (cases "Suc n div 2") auto
  have "(0 # replicate n (x :: real)) ! (Suc n div 2) = x"
    unfolding k(1) using k(2) by simp
  moreover have "even (Suc n) \<Longrightarrow> (0 # replicate n (x :: real)) ! (Suc n div 2 - 1) = x"
  proof -
    assume e: "even (Suc n)"
    then have "4 \<le> Suc n" using assms(1) by presburger
    then obtain i where i: "Suc n div 2 - 1 = Suc i" "i < n"
      by (cases "Suc n div 2 - 1") auto
    show ?thesis unfolding i(1) using i(2) by simp
  qed
  ultimately have "standard_median (replicate n x @ [0]) = x"
    using assms(2) by (auto simp: standard_median_def sort_replicate_snoc_zero_ge)
  then show ?thesis
    using t np_median_standard [of "replicate n x @ [0]"] by simp
qed

lemma listen_constant_step:
  assumes "1 \<le> j" "j < 30" "0 \<le> x"
  shows "AudioCallback tfp r \<lparr>msg_angle = x, msg_is_valid = True\<rparr>
           \<lparr>angle = take 20 (replicate j x @ [0]),
            buf = replicate (j - 1) x @ (x / 2) # replicate (30 - j) 0,
            counter = int j, ignore_inputs = False, initializtion = False\<rparr>
         = Inr (\<lparr>angle = take 20 (replicate (Suc j) x @ [0]),
                 buf = replicate (Suc j - 1) x @ (x / 2) # replicate (30 - Suc j) 0,
                 counter = int (Suc j), ignore_inputs = False, initializtion = False\<rparr>, [])"
proof -
  let ?h = "take 20 (replicate j x @ [0 :: real])"
  have "snd (TemporalMedian x ?h FILTER_LENGTH) = take 20 (x # ?h)"
    using TemporalMedian_window [of ?h FILTER_LENGTH x] by (simp add: FILTER_LENGTH_def)
  also have "\<dots> = take 20 ([x] @ replicate j x @ [0])"
    using take_append_take [of 20 "[x]" "replicate j x @ [0 :: real]"] by simp
  also have "\<dots> = take 20 (replicate (Suc j) x @ [0])" by simp
  finally have h: "snd (TemporalMedian x ?h FILTER_LENGTH) = take 20 (replicate (Suc j) x @ [0])" .
  have m: "fst (TemporalMedian x ?h FILTER_LENGTH) = x"
    unfolding TemporalMedian_fst h using assms by (intro np_median_constant) simp
  have z: "replicate (30 - j) (0 :: real) \<noteq> []" using assms by simp
  have "butlast (replicate (j - 1) x @ (x / 2) # replicate (30 - j) (0 :: real))
        = replicate (j - 1) x @ (x / 2) # replicate (30 - Suc j) 0"
    using z by (simp add: butlast_append butlast_replicate_same)
  moreover have "x # replicate (j - 1) (x :: real) = replicate j x"
    using assms by (cases j) simp_all
  ultimately have b: "x # butlast (replicate (j - 1) x @ (x / 2) # replicate (30 - j) (0 :: real))
        = replicate (Suc j - 1) x @ (x / 2) # replicate (30 - Suc j) 0"
    by simp
  have c: "int j \<noteq> int BUFFER_LENGTH" using assms by (simp add: BUFFER_LENGTH_def)
  show ?thesis
    unfolding AudioCallback_def
    by (subst body_listen) (use h m b c in simp_all)
qed

lemma listen_constant_run:
  assumes "1 \<le> j" "j + k \<le> 30" "0 \<le> x"
  shows "run tfp (replicate k (\<lparr>msg_angle = x, msg_is_valid = True\<rparr>, r))
           \<lparr>angle = take 20 (replicate j x @ [0]),
            buf = replicate (j - 1) x @ (x / 2) # replicate (30 - j) 0,
            counter = int j, ignore_inputs = False, initializtion = False\<rparr>
         = Inr (\<lparr>angle = take 20 (replicate (j + k) x @ [0]),
                 buf = replicate (j + k - 1) x @ (x / 2) # replicate (30 - (j + k)) 0,
                 counter = int (j + k), ignore_inputs = False, initializtion = False\<rparr>, [])"
  using assms
proof (induction k arbitrary: j)
  case 0
  then show ?case by simp
next
  case (Suc k)
  have j: "j < 30" using Suc.prems by simp
  have n: "1 \<le> Suc j" "Suc j + k \<le> 30" using Suc.prems by simp_all
  show ?case
    using listen_constant_step [OF Suc.prems(1) j Suc.prems(3), of tfp r]
      Suc.IH [OF n Suc.prems(3)]
    by simp
qed

lemma startup_thirty_constant:
  assumes "0 \<le> x"
  shows "run tfp ((m0, r0) # replicate 30 (\<lparr>msg_angle = x, msg_is_valid = True\<rparr>, r)) Follower_init
   = Inr (\<lparr>angle = replicate 20 x, buf = replicate 29 x @ [(x / 2)], counter = 30,
           ignore_inputs = False, initializtion = False\<rparr>, [])"
proof -
  have first: "AudioCallback tfp r0 m0 Follower_init
               = Inr (\<lparr>angle = [0], buf = replicate 30 0, counter = 0,
                       ignore_inputs = False, initializtion = False\<rparr>, [])"
    by (simp add: AudioCallback_def body_init Follower_init_def BUFFER_LENGTH_def)
  have second: "AudioCallback tfp r \<lparr>msg_angle = x, msg_is_valid = True\<rparr>
                  \<lparr>angle = [0], buf = replicate 30 0, counter = 0,
                   ignore_inputs = False, initializtion = False\<rparr>
                = Inr (\<lparr>angle = take 20 (replicate 1 x @ [0]),
                        buf = replicate (1 - 1) x @ (x / 2) # replicate (30 - 1) 0,
                        counter = int 1, ignore_inputs = False, initializtion = False\<rparr>, [])"
    by (simp add: AudioCallback_def body_listen BUFFER_LENGTH_def
      TemporalMedian_snd TemporalMedian_fst FILTER_LENGTH_def np_median_pair
      butlast_replicate_same)
  have rest: "run tfp (replicate 29 (\<lparr>msg_angle = x, msg_is_valid = True\<rparr>, r))
                \<lparr>angle = take 20 (replicate 1 x @ [0]),
                 buf = replicate (1 - 1) x @ (x / 2) # replicate (30 - 1) 0,
                 counter = int 1, ignore_inputs = False, initializtion = False\<rparr>
              = Inr (\<lparr>angle = take 20 (replicate (1 + 29) x @ [0]),
                      buf = replicate (1 + 29 - 1) x @ (x / 2) # replicate (30 - (1 + 29)) 0,
                      counter = int (1 + 29), ignore_inputs = False, initializtion = False\<rparr>, [])"
    using assms by (intro listen_constant_run) simp_all
  have split: "replicate 30 (\<lparr>msg_angle = x, msg_is_valid = True\<rparr>, r)
               = (\<lparr>msg_angle = x, msg_is_valid = True\<rparr>, r)
                 # replicate 29 (\<lparr>msg_angle = x, msg_is_valid = True\<rparr>, r)"
    by (simp add: replicate_Suc [symmetric] del: replicate_Suc)
  have fin: "take 20 (replicate (1 + 29) x @ [0 :: real]) = replicate 20 x"
    by (simp add: min_def)
  show ?thesis
    unfolding split using first second rest fin by simp
qed

lemma startup_thirty_nineties:
  "run tfp ((m0, r0) # replicate 30 (\<lparr>msg_angle = 90, msg_is_valid = True\<rparr>, r)) Follower_init
   = Inr (\<lparr>angle = replicate 20 90, buf = replicate 29 90 @ [45], counter = 30,
           ignore_inputs = False, initializtion = False\<rparr>, [])"
  using startup_thirty_constant [of 90 tfp m0 r0 r] by simp

text \<open>The thirty-first valid sample arrives.\<close>

lemma commit_after_thirty:
  "AudioCallback tfp result \<lparr>msg_angle = 90, msg_is_valid = True\<rparr>
     \<lparr>angle = replicate 20 90, buf = replicate 29 90 @ [45], counter = 30,
      ignore_inputs = False, initializtion = False\<rparr>
   = Inr (\<lparr>angle = [], buf = replicate 30 0, counter = 0,
            ignore_inputs = False, initializtion = False\<rparr>,
          [Publish (stamped_point 0 3), PublishMarker (arrow_marker 0 3),
           SendGoal \<lparr>target = tfp ''head_pan_link'' (stamped_point 0 3),
                     min_duration = 0.5, max_velocity = 1\<rparr>,
           LogResult result, Sleep 2])"
proof -
  have "snd (TemporalMedian 90 (replicate 20 90) FILTER_LENGTH) = 90 # replicate 19 90"
    by (simp add: TemporalMedian_snd FILTER_LENGTH_def butlast_replicate_same)
  moreover have "np_median (90 # replicate 19 90) = 90"
    by (simp only: Cons_replicate_numeral) (simp add: np_median_replicate)
  ultimately have tm: "fst (TemporalMedian 90 (replicate 20 90) FILTER_LENGTH) = 90"
    by (simp add: TemporalMedian_fst)
  have b: "butlast (replicate 29 90 @ [45 :: real]) = replicate 29 90"
    by (simp only: butlast_snoc)
  have "astype_int (90 # replicate 29 90) = 90 # replicate 29 90"
    by (simp add: astype_int_def int64_cast_def truncate_toward_zero_def)
  then have g: "GetMode (astype_int (90 # replicate 29 90)) = Inr 90"
    by (simp only: Cons_replicate_numeral) (simp add: GetMode_replicate)
  show ?thesis
    using callback_commit [of "\<lparr>angle = replicate 20 90, buf = replicate 29 90 @ [45], counter = 30,
      ignore_inputs = False, initializtion = False\<rparr>" "\<lparr>msg_angle = 90, msg_is_valid = True\<rparr>" 90
      tfp result] tm b g
    by (simp add: BUFFER_LENGTH_def)
qed

lemma commit_state_step:
  "AudioCallback same_frame_transform True \<lparr>msg_angle = 90, msg_is_valid = True\<rparr>
     \<lparr>angle = replicate 20 90, buf = replicate 29 90 @ [45], counter = 30,
      ignore_inputs = False, initializtion = False\<rparr>
   = Inr (\<lparr>angle = [], buf = replicate 30 0, counter = 0,
            ignore_inputs = False, initializtion = False\<rparr>,
          [Publish (stamped_point 0 3), PublishMarker (arrow_marker 0 3),
           SendGoal \<lparr>target = stamped_point 0 3, min_duration = 0.5, max_velocity = 1\<rparr>,
           LogResult True, Sleep 2])"
  using commit_after_thirty [of same_frame_transform True]
  by (simp add: same_frame_transform_def)

lemma TemporalMedian_full_constant:
  "fst (TemporalMedian x (replicate 20 x) FILTER_LENGTH) = x"
proof -
  have "snd (TemporalMedian x (replicate 20 x) FILTER_LENGTH) = x # replicate 19 x"
    by (simp add: TemporalMedian_snd FILTER_LENGTH_def butlast_replicate_same)
  then show ?thesis
    unfolding TemporalMedian_fst
    by (simp only: Cons_replicate_numeral) (simp add: np_median_replicate)
qed

lemma commit_after_thirty_constant:
  "AudioCallback tfp result \<lparr>msg_angle = x, msg_is_valid = True\<rparr>
     \<lparr>angle = replicate 20 x, buf = replicate 29 x @ [x / 2], counter = 30,
      ignore_inputs = False, initializtion = False\<rparr>
   = Inr (\<lparr>angle = [], buf = replicate 30 0, counter = 0,
            ignore_inputs = False, initializtion = False\<rparr>,
          [Publish (stamped_point (3 * cos (real_of_int (int64_cast x) / 180 * pi))
                                  (3 * sin (real_of_int (int64_cast x) / 180 * pi))),
           PublishMarker (arrow_marker (3 * cos (real_of_int (int64_cast x) / 180 * pi))
                                       (3 * sin (real_of_int (int64_cast x) / 180 * pi))),
           SendGoal \<lparr>target = tfp ''head_pan_link''
                                (stamped_point (3 * cos (real_of_int (int64_cast x) / 180 * pi))
                                               (3 * sin (real_of_int (int64_cast x) / 180 * pi))),
                     min_duration = 0.5, max_velocity = 1\<rparr>,
           LogResult result, Sleep 2])"
proof -
  have "snd (TemporalMedian x (replicate 20 x) FILTER_LENGTH) = x # replicate 19 x"
    by (simp add: TemporalMedian_snd FILTER_LENGTH_def butlast_replicate_same)
  moreover have "np_median (x # replicate 19 x) = x"
    by (simp only: Cons_replicate_numeral) (simp add: np_median_replicate)
  ultimately have tm: "fst (TemporalMedian x (replicate 20 x) FILTER_LENGTH) = x"
    by (simp add: TemporalMedian_fst)
  have b: "butlast (replicate 29 x @ [x / 2]) = replicate 29 x"
    by (simp only: butlast_snoc)
  have "astype_int (x # replicate 29 x) = int64_cast x # replicate 29 (int64_cast x)"
    by (simp add: astype_int_def)
  then have g: "GetMode (astype_int (x # replicate 29 x)) = Inr (int64_cast x)"
    by (simp only: Cons_replicate_numeral) (simp add: GetMode_replicate)
  show ?thesis
    using callback_commit [of "\<lparr>angle = replicate 20 x, buf = replicate 29 x @ [x / 2], counter = 30,
      ignore_inputs = False, initializtion = False\<rparr>" "\<lparr>msg_angle = x, msg_is_valid = True\<rparr>"
      "int64_cast x" tfp result] tm b g
    by (simp add: BUFFER_LENGTH_def)
qed

lemma int64_cast_example: "int64_cast (899 / 10) = 89"
  by (simp add: int64_cast_def truncate_toward_zero_def)

lemma round_example: "round (899 / 10 :: real) = 90"
  by (simp add: round_def)

subsection \<open>Callbacks under the lock\<close>

lemma body_send_flag:
  assumes "\<not> ignore_inputs s" "AudioCallback_body (SetPointHead_send tfp) msg s = Inr (s', evs)"
  shows "ignore_inputs s' = list_ex is_SendGoal evs"
proof (cases "initializtion s")
  case True
  then show ?thesis using assms by (auto simp: body_init)
next
  case i: False
  show ?thesis
  proof (cases "msg_is_valid msg")
    case False
    then show ?thesis using assms i body_skip [of s msg "SetPointHead_send tfp"] by auto
  next
    case v: True
    have b: "buf s \<noteq> []"
      using assms i v body_raise [of s msg "SetPointHead_send tfp"] by auto
    show ?thesis
    proof (cases "counter s = int BUFFER_LENGTH")
      case False
      then show ?thesis
        using assms body_listen [OF i v assms(1) b, of "SetPointHead_send tfp"] by auto
    next
      case c: True
      obtain d where d: "GetMode (astype_int (fst (TemporalMedian (msg_angle msg) (angle s) FILTER_LENGTH)
                              # butlast (buf s))) = Inr d"
        using commit_mode_exists by blast
      show ?thesis
        using assms(2) body_commit [OF i v assms(1) b c d, of "SetPointHead_send tfp"]
        by (auto simp: SetPointHead_send_def Let_def)
    qed
  qed
qed

lemma step_flag:
  assumes "ignore_inputs (follower n) \<longleftrightarrow> lock_held n \<and> in_wait n" "step tfp a n = Some n'"
  shows "ignore_inputs (follower n') \<longleftrightarrow> lock_held n' \<and> in_wait n'"
proof (cases a)
  case (Deliver msg)
  then show ?thesis using assms by auto
next
  case (Acquire i)
  then have free: "\<not> lock_held n" and i: "i < length (waiting n)"
    using assms(2) by (auto split: if_splits)
  then have f: "\<not> ignore_inputs (follower n)" using assms(1) by simp
  show ?thesis
  proof (cases "AudioCallback_body (SetPointHead_send tfp) (waiting n ! i) (follower n)")
    case (Inl e)
    then show ?thesis using assms(2) Acquire free i f by auto
  next
    case (Inr r)
    obtain s' evs where r: "r = (s', evs)" by (cases r)
    have "ignore_inputs s' = list_ex is_SendGoal evs"
      using body_send_flag [OF f] Inr r by simp
    then show ?thesis using assms(2) Acquire free i Inr r by auto
  qed
next
  case (Complete result)
  then show ?thesis
    using assms(2) by (auto simp: SetPointHead_done_def split: if_splits)
qed

lemma steps_flag:
  assumes "ignore_inputs (follower n) \<longleftrightarrow> lock_held n \<and> in_wait n" "steps tfp acts n = Some n'"
  shows "ignore_inputs (follower n') \<longleftrightarrow> lock_held n' \<and> in_wait n'"
  using assms
proof (induction acts arbitrary: n)
  case Nil
  then show ?case by simp
next
  case (Cons a acts)
  then obtain n1 where n1: "step tfp a n = Some n1" "steps tfp acts n1 = Some n'"
    by (auto split: option.splits)
  show ?case
    by (rule Cons.IH [OF step_flag [OF Cons.prems(1) n1(1)] n1(2)])
qed

lemma steps_append:
  "steps tfp (xs @ ys) n = (case steps tfp xs n of None \<Rightarrow> None | Some n' \<Rightarrow> steps tfp ys n')"
  by (induction xs arbitrary: n) (auto split: option.splits)

lemma body_quiet_any:
  assumes "AudioCallback_body sph msg s = Inr (s', [])"
  shows "AudioCallback_body sph' msg s = Inr (s', [])"
proof (cases "initializtion s")
  case True
  then show ?thesis using assms by (simp add: body_init)
next
  case i: False
  show ?thesis
  proof (cases "msg_is_valid msg \<and> \<not> ignore_inputs s")
    case False
    then show ?thesis
      using assms body_skip [OF i False, of sph] body_skip [OF i False, of sph'] by simp
  next
    case v: True
    have b: "buf s \<noteq> []"
      using assms i v body_raise [of s msg sph] by auto
    show ?thesis
    proof (cases "counter s = int BUFFER_LENGTH")
      case False
      then show ?thesis
        using assms v body_listen [OF i _ _ b False, of msg sph]
          body_listen [OF i _ _ b False, of msg sph'] by simp
    next
      case c: True
      obtain d where d: "GetMode (astype_int (fst (TemporalMedian (msg_angle msg) (angle s) FILTER_LENGTH)
                              # butlast (buf s))) = Inr d"
        using commit_mode_exists by blast
      have False
        using assms v body_commit [OF i _ _ b c d, of sph]
        by (auto split: prod.splits)
      then show ?thesis ..
    qed
  qed
qed

lemma serial_quiet:
  assumes "run tfp inputs (follower n) = Inr (s', [])"
    and "\<not> lock_held n" "\<not> in_wait n" "waiting n = []"
  shows "steps tfp (serial (map fst inputs)) n = Some (n\<lparr>follower := s'\<rparr>)"
  using assms
proof (induction inputs arbitrary: n)
  case Nil
  then show ?case by simp
next
  case (Cons i inputs)
  obtain msg result where i: "i = (msg, result)" by (cases i)
  obtain s1 where one: "AudioCallback tfp result msg (follower n) = Inr (s1, [])"
    and rest: "run tfp inputs s1 = Inr (s', [])"
    using Cons.prems(1) i by (auto split: sum.splits prod.splits)
  have b: "AudioCallback_body (SetPointHead_send tfp) msg (follower n) = Inr (s1, [])"
    using one body_quiet_any unfolding AudioCallback_def by blast
  let ?n1 = "n\<lparr>follower := s1\<rparr>"
  have "n\<lparr>follower := s1, lock_held := False, in_wait := False, waiting := []\<rparr> = ?n1"
    using Cons.prems(2,3,4) by (cases n) simp
  then have two: "steps tfp [Deliver msg, Acquire 0] n = Some ?n1"
    using Cons.prems(2,4) b by simp
  have ih: "steps tfp (serial (map fst inputs)) ?n1 = Some (?n1\<lparr>follower := s'\<rparr>)"
    using rest Cons.prems(2,3,4) by (intro Cons.IH) simp_all
  have "steps tfp (serial (map fst (i # inputs))) n
        = steps tfp ([Deliver msg, Acquire 0] @ serial (map fst inputs)) n"
    using i by simp
  also have "\<dots> = steps tfp (serial (map fst inputs)) ?n1"
    by (simp only: steps_append two option.case)
  also have "\<dots> = Some (n\<lparr>follower := s'\<rparr>)"
    using ih by simp
  finally show ?case .
qed

lemma serial_thirty_nineties:
  "steps tfp (serial (m0 # replicate 30 \<lparr>msg_angle = 90, msg_is_valid = True\<rparr>)) node_init
   = Some \<lparr>follower = \<lparr>angle = replicate 20 90, buf = replicate 29 90 @ [45], counter = 30,
                        ignore_inputs = False, initializtion = False\<rparr>,
           lock_held = False, in_wait = False, waiting = [], trace = []\<rparr>"
proof -
  have "steps tfp (serial (map fst ((m0, True)
                     # replicate 30 (\<lparr>msg_angle = 90, msg_is_valid = True\<rparr>, True)))) node_init
        = Some (node_init\<lparr>follower := \<lparr>angle = replicate 20 90, buf = replicate 29 90 @ [45],
                                        counter = 30, ignore_inputs = False,
                                        initializtion = False\<rparr>\<rparr>)"
    using startup_thirty_nineties [of tfp m0 True True]
    by (intro serial_quiet) (simp_all add: node_init_def del: run.simps)
  then show ?thesis by (simp add: node_init_def)
qed

lemma commit_in_progress:
  "steps tfp (serial (m0 # replicate 30 \<lparr>msg_angle = 90, msg_is_valid = True\<rparr>)
              @ [Deliver \<lparr>msg_angle = 90, msg_is_valid = True\<rparr>, Acquire 0]) node_init
   = Some \<lparr>follower = \<lparr>angle = replicate 20 90, buf = replicate 30 90, counter = 30,
                        ignore_inputs = True, initializtion = False\<rparr>,
           lock_held = True, in_wait = True, waiting = [],
           trace = [Publish (stamped_point 0 3), PublishMarker (arrow_marker 0 3),
                    SendGoal \<lparr>target = tfp ''head_pan_link'' (stamped_point 0 3),
                              min_duration = 0.5, max_velocity = 1\<rparr>]\<rparr>"
proof -
  have "snd (TemporalMedian 90 (replicate 20 90) FILTER_LENGTH) = 90 # replicate 19 90"
    by (simp add: TemporalMedian_snd FILTER_LENGTH_def butlast_replicate_same)
  then have h: "snd (TemporalMedian 90 (replicate 20 90) FILTER_LENGTH) = replicate 20 90"
    by (simp only: Cons_replicate_numeral)
  then have tm: "fst (TemporalMedian 90 (replicate 20 90) FILTER_LENGTH) = 90"
    by (simp add: TemporalMedian_fst np_median_replicate)
  have b: "butlast (replicate 29 90 @ [45 :: real]) = replicate 29 90"
    by (simp only: butlast_snoc)
  have a: "astype_int (90 # replicate 29 90) = replicate 30 90"
    by (simp add: astype_int_def int64_cast_def truncate_toward_zero_def Cons_replicate_numeral)
  then have g: "GetMode (astype_int (90 # replicate 29 90)) = Inr 90"
    by (simp add: GetMode_replicate)
  have "AudioCallback_body (SetPointHead_send tfp) \<lparr>msg_angle = 90, msg_is_valid = True\<rparr>
          \<lparr>angle = replicate 20 90, buf = replicate 29 90 @ [45], counter = 30,
           ignore_inputs = False, initializtion = False\<rparr>
        = Inr (\<lparr>angle = replicate 20 90, buf = replicate 30 90, counter = 30,
                ignore_inputs = True, initializtion = False\<rparr>,
               [Publish (stamped_point 0 3), PublishMarker (arrow_marker 0 3),
                SendGoal \<lparr>target = tfp ''head_pan_link'' (stamped_point 0 3),
                          min_duration = 0.5, max_velocity = 1\<rparr>])"
    using body_commit [of "\<lparr>angle = replicate 20 90, buf = replicate 29 90 @ [45], counter = 30,
            ignore_inputs = False, initializtion = False\<rparr>" "\<lparr>msg_angle = 90, msg_is_valid = True\<rparr>"
            90 "SetPointHead_send tfp"] h tm b a g
    by (simp add: BUFFER_LENGTH_def SetPointHead_send_def Let_def)
  then show ?thesis
    unfolding steps_append serial_thirty_nineties by simp
qed

subsection \<open>The claims about the controller\<close>

text \<open>
  C1. The counter is compared with \<open>BUFFER_LENGTH\<close> before it is incremented. After
  the discarded first sample, thirty valid samples of 90 degrees are all processed
  without a commit and leave the counter at 30. It is the thirty-first valid sample that
  commits, with the target 0, 3, 0.
\<close>

theorem commit_on_31st_valid_sample:
  "run tfp ((\<lparr>msg_angle = 90, msg_is_valid = True\<rparr>, True)
            # replicate 30 (\<lparr>msg_angle = 90, msg_is_valid = True\<rparr>, True)) Follower_init
   = Inr (\<lparr>angle = replicate 20 90, buf = replicate 29 90 @ [45], counter = 30,
           ignore_inputs = False, initializtion = False\<rparr>, [])
   \<and> run tfp (((\<lparr>msg_angle = 90, msg_is_valid = True\<rparr>, True)
                # replicate 30 (\<lparr>msg_angle = 90, msg_is_valid = True\<rparr>, True))
               @ [(\<lparr>msg_angle = 90, msg_is_valid = True\<rparr>, True)]) Follower_init
     = Inr (\<lparr>angle = [], buf = replicate 30 0, counter = 0,
             ignore_inputs = False, initializtion = False\<rparr>,
            [Publish (stamped_point 0 3), PublishMarker (arrow_marker 0 3),
             SendGoal \<lparr>target = tfp ''head_pan_link'' (stamped_point 0 3),
                       min_duration = 0.5, max_velocity = 1\<rparr>,
             LogResult True, Sleep 2])"
proof
  show thirty: "run tfp ((\<lparr>msg_angle = 90, msg_is_valid = True\<rparr>, True)
            # replicate 30 (\<lparr>msg_angle = 90, msg_is_valid = True\<rparr>, True)) Follower_init
   = Inr (\<lparr>angle = replicate 20 90, buf = replicate 29 90 @ [45], counter = 30,
           ignore_inputs = False, initializtion = False\<rparr>, [])"
    by (rule startup_thirty_nineties)
  show "run tfp (((\<lparr>msg_angle = 90, msg_is_valid = True\<rparr>, True)
                # replicate 30 (\<lparr>msg_angle = 90, msg_is_valid = True\<rparr>, True))
               @ [(\<lparr>msg_angle = 90, msg_is_valid = True\<rparr>, True)]) Follower_init
     = Inr (\<lparr>angle = [], buf = replicate 30 0, counter = 0,
             ignore_inputs = False, initializtion = False\<rparr>,
            [Publish (stamped_point 0 3), PublishMarker (arrow_marker 0 3),
             SendGoal \<lparr>target = tfp ''head_pan_link'' (stamped_point 0 3),
                       min_duration = 0.5, max_velocity = 1\<rparr>,
             LogResult True, Sleep 2])"
    unfolding run_append thirty
    using commit_after_thirty [of tfp True] by simp
qed

text \<open>
  C4. The vote buffer does not hold rounded integers. At startup, after the discarded
  first sample, a valid sample of 91 degrees is filtered to 45.5, and the newest element
  of the buffer is 45.5: not an integer, and not the rounded filtered value. And when
  integers are made, in a commit, they are not the rounded values: after the discarded
  first sample and thirty valid samples of 89.9 degrees, the thirty-first is filtered to
  89.9, every value of the buffer it votes on is 89.9, which rounds to 90, and the point
  it publishes has the direction 89.
\<close>

theorem votes_not_rounded:
  "AudioCallback same_frame_transform True \<lparr>msg_angle = 91, msg_is_valid = True\<rparr>
     (Follower_init\<lparr>initializtion := False\<rparr>)
   = Inr (\<lparr>angle = [91, 0], buf = (91 / 2) # replicate 29 0, counter = 1,
           ignore_inputs = False, initializtion = False\<rparr>, [])
   \<and> fst (TemporalMedian 91 (angle (Follower_init\<lparr>initializtion := False\<rparr>)) FILTER_LENGTH)
       = 91 / 2
   \<and> (91 / 2 :: real) \<notin> \<int>
   \<and> (91 / 2 :: real) \<noteq> real_of_int (round (91 / 2 :: real))
   \<and> run same_frame_transform
         ((\<lparr>msg_angle = 899 / 10, msg_is_valid = True\<rparr>, True)
          # replicate 30 (\<lparr>msg_angle = 899 / 10, msg_is_valid = True\<rparr>, True)) Follower_init
       = Inr (\<lparr>angle = replicate 20 (899 / 10), buf = replicate 29 (899 / 10) @ [899 / 20],
               counter = 30, ignore_inputs = False, initializtion = False\<rparr>, [])
   \<and> fst (TemporalMedian (899 / 10) (replicate 20 (899 / 10)) FILTER_LENGTH) = 899 / 10
   \<and> AudioCallback same_frame_transform True \<lparr>msg_angle = 899 / 10, msg_is_valid = True\<rparr>
         \<lparr>angle = replicate 20 (899 / 10), buf = replicate 29 (899 / 10) @ [899 / 20],
          counter = 30, ignore_inputs = False, initializtion = False\<rparr>
       = Inr (\<lparr>angle = [], buf = replicate 30 0, counter = 0,
               ignore_inputs = False, initializtion = False\<rparr>,
              [Publish (stamped_point (3 * cos (89 / 180 * pi)) (3 * sin (89 / 180 * pi))),
               PublishMarker (arrow_marker (3 * cos (89 / 180 * pi)) (3 * sin (89 / 180 * pi))),
               SendGoal \<lparr>target = stamped_point (3 * cos (89 / 180 * pi))
                                                 (3 * sin (89 / 180 * pi)),
                         min_duration = 0.5, max_velocity = 1\<rparr>,
               LogResult True, Sleep 2])
   \<and> round (899 / 10 :: real) = 90"
proof (intro conjI)
  show "AudioCallback same_frame_transform True \<lparr>msg_angle = 91, msg_is_valid = True\<rparr>
     (Follower_init\<lparr>initializtion := False\<rparr>)
   = Inr (\<lparr>angle = [91, 0], buf = (91 / 2) # replicate 29 0, counter = 1,
           ignore_inputs = False, initializtion = False\<rparr>, [])"
    by (simp add: AudioCallback_def body_listen Follower_init_def BUFFER_LENGTH_def
      TemporalMedian_snd TemporalMedian_fst FILTER_LENGTH_def np_median_pair
      butlast_replicate_same)
  show "fst (TemporalMedian 91 (angle (Follower_init\<lparr>initializtion := False\<rparr>)) FILTER_LENGTH)
       = 91 / 2"
    by (simp add: Follower_init_def TemporalMedian_snd TemporalMedian_fst FILTER_LENGTH_def
      np_median_pair)
  show "(91 / 2 :: real) \<notin> \<int>"
    by (rule half_not_int)
  show "(91 / 2 :: real) \<noteq> real_of_int (round (91 / 2 :: real))"
    by (simp add: round_def)
  show "run same_frame_transform
         ((\<lparr>msg_angle = 899 / 10, msg_is_valid = True\<rparr>, True)
          # replicate 30 (\<lparr>msg_angle = 899 / 10, msg_is_valid = True\<rparr>, True)) Follower_init
       = Inr (\<lparr>angle = replicate 20 (899 / 10), buf = replicate 29 (899 / 10) @ [899 / 20],
               counter = 30, ignore_inputs = False, initializtion = False\<rparr>, [])"
    using startup_thirty_constant [of "899 / 10" same_frame_transform
            "\<lparr>msg_angle = 899 / 10, msg_is_valid = True\<rparr>" True True]
    by simp
  have "snd (TemporalMedian (899 / 10) (replicate 20 (899 / 10)) FILTER_LENGTH)
        = (899 / 10) # replicate 19 (899 / 10)"
    by (simp add: TemporalMedian_snd FILTER_LENGTH_def butlast_replicate_same)
  then show "fst (TemporalMedian (899 / 10) (replicate 20 (899 / 10)) FILTER_LENGTH) = 899 / 10"
    unfolding TemporalMedian_fst
    by (simp only: Cons_replicate_numeral) (simp add: np_median_replicate)
  show "AudioCallback same_frame_transform True \<lparr>msg_angle = 899 / 10, msg_is_valid = True\<rparr>
         \<lparr>angle = replicate 20 (899 / 10), buf = replicate 29 (899 / 10) @ [899 / 20],
          counter = 30, ignore_inputs = False, initializtion = False\<rparr>
       = Inr (\<lparr>angle = [], buf = replicate 30 0, counter = 0,
               ignore_inputs = False, initializtion = False\<rparr>,
              [Publish (stamped_point (3 * cos (89 / 180 * pi)) (3 * sin (89 / 180 * pi))),
               PublishMarker (arrow_marker (3 * cos (89 / 180 * pi)) (3 * sin (89 / 180 * pi))),
               SendGoal \<lparr>target = stamped_point (3 * cos (89 / 180 * pi))
                                                 (3 * sin (89 / 180 * pi)),
                         min_duration = 0.5, max_velocity = 1\<rparr>,
               LogResult True, Sleep 2])"
    using commit_after_thirty_constant [of same_frame_transform True "899 / 10"]
    by (simp add: int64_cast_example same_frame_transform_def)
  show "round (899 / 10 :: real) = 90"
    by (rule round_example)
qed

text \<open>
  C4, as the code has it. The callback pushes the filtered value itself into the vote
  buffer: after a processed valid sample that does not commit, the buffer is the filtered
  value followed by the older elements, the oldest dropped. Integers appear only in a
  commit: the direction of the published point is the mode of the converted buffer, and
  the conversion takes every element whose truncation fits in 64 bits to the integer
  next to it toward zero (at most the value and less than one below it for a value that
  is not negative, at least the value and less than one above it for one that is not
  positive).
\<close>

theorem vote_buffer_holds_filtered_values:
  assumes "\<not> initializtion s" "msg_is_valid msg" "\<not> ignore_inputs s" "buf s \<noteq> []"
    and "b = fst (TemporalMedian (msg_angle msg) (angle s) FILTER_LENGTH) # butlast (buf s)"
  shows "(counter s \<noteq> int BUFFER_LENGTH \<longrightarrow>
            (\<exists>s'. AudioCallback tfp result msg s = Inr (s', []) \<and> buf s' = b))
       \<and> (counter s = int BUFFER_LENGTH \<longrightarrow>
            (\<exists>s' evs d. AudioCallback tfp result msg s = Inr (s', evs)
               \<and> GetMode (astype_int b) = Inr d
               \<and> hd evs = Publish (stamped_point (3 * cos (real_of_int d / 180 * pi))
                                                  (3 * sin (real_of_int d / 180 * pi)))))
       \<and> length (astype_int b) = length b
       \<and> (\<forall>i < length b. - (2 ^ 63) - 1 < b ! i \<and> b ! i < 2 ^ 63 \<longrightarrow>
              (0 \<le> b ! i \<longrightarrow> real_of_int (astype_int b ! i) \<le> b ! i
                               \<and> b ! i < real_of_int (astype_int b ! i) + 1)
            \<and> (b ! i \<le> 0 \<longrightarrow> b ! i \<le> real_of_int (astype_int b ! i)
                               \<and> real_of_int (astype_int b ! i) < b ! i + 1))"
proof -
  have listen: "counter s \<noteq> int BUFFER_LENGTH \<longrightarrow>
            (\<exists>s'. AudioCallback tfp result msg s = Inr (s', []) \<and> buf s' = b)"
    using body_listen [OF assms(1,2,3,4), of "SetPointHead tfp result"] assms(5)
    by (simp add: AudioCallback_def)
  obtain d where d: "GetMode (astype_int (fst (TemporalMedian (msg_angle msg) (angle s) FILTER_LENGTH)
                              # butlast (buf s))) = Inr d"
    using commit_mode_exists by blast
  have commit: "counter s = int BUFFER_LENGTH \<longrightarrow>
            (\<exists>s' evs d. AudioCallback tfp result msg s = Inr (s', evs)
               \<and> GetMode (astype_int b) = Inr d
               \<and> hd evs = Publish (stamped_point (3 * cos (real_of_int d / 180 * pi))
                                                  (3 * sin (real_of_int d / 180 * pi))))"
  proof
    assume c: "counter s = int BUFFER_LENGTH"
    show "\<exists>s' evs d. AudioCallback tfp result msg s = Inr (s', evs)
               \<and> GetMode (astype_int b) = Inr d
               \<and> hd evs = Publish (stamped_point (3 * cos (real_of_int d / 180 * pi))
                                                  (3 * sin (real_of_int d / 180 * pi)))"
      using callback_commit [OF assms(1,2,3,4) c d, of tfp result] d assms(5)
      by auto
  qed
  have len: "length (astype_int b) = length b" by (simp add: astype_int_def)
  have conv: "\<forall>i < length b. - (2 ^ 63) - 1 < b ! i \<and> b ! i < 2 ^ 63 \<longrightarrow>
              (0 \<le> b ! i \<longrightarrow> real_of_int (astype_int b ! i) \<le> b ! i
                               \<and> b ! i < real_of_int (astype_int b ! i) + 1)
            \<and> (b ! i \<le> 0 \<longrightarrow> b ! i \<le> real_of_int (astype_int b ! i)
                               \<and> real_of_int (astype_int b ! i) < b ! i + 1)"
    using astype_int_truncates [of _ b] by blast
  show ?thesis using listen commit len conv by blast
qed

theorem vote_buffer_holds_filtered_values_witness:
  "\<not> initializtion (Follower_init\<lparr>initializtion := False\<rparr>)
   \<and> msg_is_valid \<lparr>msg_angle = 91, msg_is_valid = True\<rparr>
   \<and> \<not> ignore_inputs (Follower_init\<lparr>initializtion := False\<rparr>)
   \<and> buf (Follower_init\<lparr>initializtion := False\<rparr>) \<noteq> []
   \<and> counter (Follower_init\<lparr>initializtion := False\<rparr>) \<noteq> int BUFFER_LENGTH
   \<and> (\<exists>s'. AudioCallback same_frame_transform True \<lparr>msg_angle = 91, msg_is_valid = True\<rparr>
               (Follower_init\<lparr>initializtion := False\<rparr>) = Inr (s', [])
          \<and> buf s' = (91 / 2) # replicate 29 0)
   \<and> counter \<lparr>angle = replicate 20 (899 / 10), buf = replicate 29 (899 / 10) @ [899 / 20],
               counter = 30, ignore_inputs = False, initializtion = False\<rparr> = int BUFFER_LENGTH
   \<and> (\<exists>s' evs d. AudioCallback same_frame_transform True
                      \<lparr>msg_angle = 899 / 10, msg_is_valid = True\<rparr>
                      \<lparr>angle = replicate 20 (899 / 10),
                       buf = replicate 29 (899 / 10) @ [899 / 20],
                       counter = 30, ignore_inputs = False, initializtion = False\<rparr>
                    = Inr (s', evs)
          \<and> GetMode (astype_int ((899 / 10) # replicate 29 (899 / 10))) = Inr d
          \<and> hd evs = Publish (stamped_point (3 * cos (real_of_int d / 180 * pi))
                                             (3 * sin (real_of_int d / 180 * pi))))
   \<and> GetMode (astype_int ((899 / 10) # replicate 29 (899 / 10))) = Inr 89
   \<and> real_of_int (astype_int ((899 / 10) # replicate 29 (899 / 10)) ! 0) \<le> 899 / 10
   \<and> 899 / 10 < real_of_int (astype_int ((899 / 10) # replicate 29 (899 / 10)) ! 0) + 1
   \<and> astype_int ((899 / 10) # replicate 29 (899 / 10)) ! 0 = 89
   \<and> round (899 / 10 :: real) = 90"
proof -
  have a: "fst (TemporalMedian 91 [0] FILTER_LENGTH) # butlast (replicate 30 0)
           = (91 / 2) # replicate 29 0"
    by (simp add: TemporalMedian_snd TemporalMedian_fst FILTER_LENGTH_def np_median_pair
        butlast_replicate_same)
  have g: "GetMode (astype_int ((899 / 10) # replicate 29 (899 / 10))) = Inr 89"
  proof -
    have "astype_int ((899 / 10) # replicate 29 (899 / 10)) = 89 # replicate 29 89"
      by (simp add: astype_int_def int64_cast_example)
    then show ?thesis
      by (simp only: Cons_replicate_numeral) (simp add: GetMode_replicate)
  qed
  have first: "(\<exists>s'. AudioCallback same_frame_transform True \<lparr>msg_angle = 91, msg_is_valid = True\<rparr>
               (Follower_init\<lparr>initializtion := False\<rparr>) = Inr (s', [])
          \<and> buf s' = (91 / 2) # replicate 29 0)"
    using vote_buffer_holds_filtered_values
            [of "Follower_init\<lparr>initializtion := False\<rparr>" "\<lparr>msg_angle = 91, msg_is_valid = True\<rparr>"
                "(91 / 2) # replicate 29 0" same_frame_transform True] a
    by (simp add: Follower_init_def BUFFER_LENGTH_def)
  let ?B = "(899 / 10) # replicate 29 (899 / 10 :: real)"
  let ?S = "\<lparr>angle = replicate 20 (899 / 10), buf = replicate 29 (899 / 10) @ [899 / 20],
             counter = 30, ignore_inputs = False, initializtion = False\<rparr>"
  let ?m = "\<lparr>msg_angle = 899 / 10, msg_is_valid = True\<rparr>"
  have T: "(counter ?S \<noteq> int BUFFER_LENGTH \<longrightarrow>
            (\<exists>s'. AudioCallback same_frame_transform True ?m ?S = Inr (s', []) \<and> buf s' = ?B))
       \<and> (counter ?S = int BUFFER_LENGTH \<longrightarrow>
            (\<exists>s' evs d. AudioCallback same_frame_transform True ?m ?S = Inr (s', evs)
               \<and> GetMode (astype_int ?B) = Inr d
               \<and> hd evs = Publish (stamped_point (3 * cos (real_of_int d / 180 * pi))
                                                  (3 * sin (real_of_int d / 180 * pi)))))
       \<and> length (astype_int ?B) = length ?B
       \<and> (\<forall>i < length ?B. - (2 ^ 63) - 1 < ?B ! i \<and> ?B ! i < 2 ^ 63 \<longrightarrow>
              (0 \<le> ?B ! i \<longrightarrow> real_of_int (astype_int ?B ! i) \<le> ?B ! i
                               \<and> ?B ! i < real_of_int (astype_int ?B ! i) + 1)
            \<and> (?B ! i \<le> 0 \<longrightarrow> ?B ! i \<le> real_of_int (astype_int ?B ! i)
                               \<and> real_of_int (astype_int ?B ! i) < ?B ! i + 1))"
    by (rule vote_buffer_holds_filtered_values) (simp_all add: TemporalMedian_full_constant)
  then have conv: "\<forall>i < length ?B. - (2 ^ 63) - 1 < ?B ! i \<and> ?B ! i < 2 ^ 63 \<longrightarrow>
              (0 \<le> ?B ! i \<longrightarrow> real_of_int (astype_int ?B ! i) \<le> ?B ! i
                               \<and> ?B ! i < real_of_int (astype_int ?B ! i) + 1)
            \<and> (?B ! i \<le> 0 \<longrightarrow> ?B ! i \<le> real_of_int (astype_int ?B ! i)
                               \<and> real_of_int (astype_int ?B ! i) < ?B ! i + 1)"
    by (elim conjE)
  have bounds: "real_of_int (astype_int ?B ! 0) \<le> 899 / 10
        \<and> 899 / 10 < real_of_int (astype_int ?B ! 0) + 1"
    using conv [rule_format, of 0] by simp
  have second: "\<exists>s' evs d. AudioCallback same_frame_transform True ?m ?S = Inr (s', evs)
          \<and> GetMode (astype_int ?B) = Inr d
          \<and> hd evs = Publish (stamped_point (3 * cos (real_of_int d / 180 * pi))
                                             (3 * sin (real_of_int d / 180 * pi)))"
    using T by (simp add: BUFFER_LENGTH_def)
  have e: "astype_int ((899 / 10) # replicate 29 (899 / 10)) ! 0 = 89"
    by (simp add: astype_int_def int64_cast_example)
  show ?thesis
    using first second bounds g e round_example
    by (simp add: Follower_init_def BUFFER_LENGTH_def)
qed

text \<open>
  C7. When a callback has committed (it sent a goal and returned, whatever the actuator
  reported), the filter history is empty, the vote buffer is the all-zero array of length
  30 that the constructor also starts from, the counter is 0 and the flag is clear. From
  there, no sequence of at most 29 valid samples sends anything: no second commit.
\<close>

theorem reset_after_commit:
  assumes "AudioCallback tfp result msg s = Inr (s', evs)" "list_ex is_SendGoal evs"
  shows "angle s' = [] \<and> buf s' = replicate BUFFER_LENGTH 0 \<and> counter s' = 0
         \<and> \<not> ignore_inputs s'
         \<and> (\<forall>inputs. length inputs \<le> 29 \<and> (\<forall>i \<in> set inputs. msg_is_valid (fst i))
               \<longrightarrow> (\<exists>s''. run tfp inputs s' = Inr (s'', [])))"
proof -
  have ne: "evs \<noteq> []" using assms(2) by auto
  note c = callback_events [OF assms(1) ne]
  obtain d where d: "GetMode (astype_int (fst (TemporalMedian (msg_angle msg) (angle s) FILTER_LENGTH)
                              # butlast (buf s))) = Inr d"
    using commit_mode_exists by blast
  have s': "s' = s\<lparr>angle := [], buf := replicate BUFFER_LENGTH 0, counter := 0\<rparr>"
    using callback_commit [of s msg d tfp result] c d assms(1) by simp
  have "\<exists>s''. run tfp inputs s' = Inr (s'', [])"
    if "length inputs \<le> 29 \<and> (\<forall>i \<in> set inputs. msg_is_valid (fst i))" for inputs
  proof -
    have "\<exists>s''. run tfp inputs s' = Inr (s'', [])
            \<and> counter s'' = counter s' + int (length inputs)
            \<and> \<not> initializtion s'' \<and> \<not> ignore_inputs s''
            \<and> length (buf s'') = length (buf s')"
      using that c by (intro run_listen) (simp_all add: s' BUFFER_LENGTH_def)
    then show ?thesis by blast
  qed
  then show ?thesis using s' c by simp
qed

theorem reset_after_commit_witness:
  "AudioCallback same_frame_transform True \<lparr>msg_angle = 90, msg_is_valid = True\<rparr>
     \<lparr>angle = replicate 20 90, buf = replicate 29 90 @ [45], counter = 30,
      ignore_inputs = False, initializtion = False\<rparr>
   = Inr (\<lparr>angle = [], buf = replicate 30 0, counter = 0,
            ignore_inputs = False, initializtion = False\<rparr>,
          [Publish (stamped_point 0 3), PublishMarker (arrow_marker 0 3),
           SendGoal \<lparr>target = stamped_point 0 3, min_duration = 0.5, max_velocity = 1\<rparr>,
           LogResult True, Sleep 2])
   \<and> list_ex is_SendGoal
        [Publish (stamped_point 0 3), PublishMarker (arrow_marker 0 3),
         SendGoal \<lparr>target = stamped_point 0 3, min_duration = 0.5, max_velocity = 1\<rparr>,
         LogResult True, Sleep 2]
   \<and> length (replicate 29 (\<lparr>msg_angle = 90, msg_is_valid = True\<rparr>, True)) \<le> 29
   \<and> msg_is_valid (fst (\<lparr>msg_angle = 90, msg_is_valid = True\<rparr>, True))
   \<and> (\<exists>s''. run same_frame_transform
                  (replicate 29 (\<lparr>msg_angle = 90, msg_is_valid = True\<rparr>, True))
                  \<lparr>angle = [], buf = replicate 30 0, counter = 0,
                   ignore_inputs = False, initializtion = False\<rparr> = Inr (s'', []))"
proof -
  have e: "list_ex is_SendGoal
        [Publish (stamped_point 0 3), PublishMarker (arrow_marker 0 3),
         SendGoal \<lparr>target = stamped_point 0 3, min_duration = 0.5, max_velocity = 1\<rparr>,
         LogResult True, Sleep 2]"
    by simp
  have "\<forall>inputs. length inputs \<le> 29 \<and> (\<forall>i \<in> set inputs. msg_is_valid (fst i))
          \<longrightarrow> (\<exists>s''. run same_frame_transform inputs
                         \<lparr>angle = [], buf = replicate 30 0, counter = 0,
                          ignore_inputs = False, initializtion = False\<rparr> = Inr (s'', []))"
    using reset_after_commit [OF commit_state_step e] by (simp add: BUFFER_LENGTH_def)
  then have "\<exists>s''. run same_frame_transform
                  (replicate 29 (\<lparr>msg_angle = 90, msg_is_valid = True\<rparr>, True))
                  \<lparr>angle = [], buf = replicate 30 0, counter = 0,
                   ignore_inputs = False, initializtion = False\<rparr> = Inr (s'', [])"
    by simp
  then show ?thesis
    using commit_state_step e by simp
qed

text \<open>
  C9. Every goal a callback sends has the target \<open>3 cos (d \<pi> / 180)\<close>,
  \<open>3 sin (d \<pi> / 180)\<close>, 0, where \<open>d\<close> is the voted direction: the mode of the
  truncated vote buffer after this sample's push. These are the two components
  \<open>PolToCart\<close> returns, a function of its two arguments. The transform listener is
  asked for the frame the point is stamped with, and is taken to return such a point
  unchanged.
\<close>

theorem goal_target_from_voted_direction:
  assumes "AudioCallback tfp result msg s = Inr (s', evs)" "SendGoal g \<in> set evs"
    and "\<forall>p. frame_id p = ''head_pan_link'' \<longrightarrow> tfp ''head_pan_link'' p = p"
  shows "\<exists>d. GetMode (astype_int (fst (TemporalMedian (msg_angle msg) (angle s) FILTER_LENGTH)
                                   # butlast (buf s))) = Inr d
           \<and> point (target g) = \<lparr>point_x = 3 * cos (real_of_int d * pi / 180),
                                  point_y = 3 * sin (real_of_int d * pi / 180),
                                  point_z = 0\<rparr>
           \<and> PolToCart 3 (real_of_int d * pi / 180)
               = (point_x (point (target g)), point_y (point (target g)))"
proof -
  have ne: "evs \<noteq> []" using assms(2) by auto
  note c = callback_events [OF assms(1) ne]
  obtain d where d: "GetMode (astype_int (fst (TemporalMedian (msg_angle msg) (angle s) FILTER_LENGTH)
                              # butlast (buf s))) = Inr d"
    using commit_mode_exists by blast
  let ?p = "stamped_point (3 * cos (real_of_int d / 180 * pi)) (3 * sin (real_of_int d / 180 * pi))"
  have "evs = [Publish ?p,
               PublishMarker (arrow_marker (3 * cos (real_of_int d / 180 * pi))
                                           (3 * sin (real_of_int d / 180 * pi))),
               SendGoal \<lparr>target = tfp ''head_pan_link'' ?p, min_duration = 0.5, max_velocity = 1\<rparr>,
               LogResult result, Sleep 2]"
    using callback_commit [of s msg d tfp result] c d assms(1) by simp
  then have "g = \<lparr>target = tfp ''head_pan_link'' ?p, min_duration = 0.5, max_velocity = 1\<rparr>"
    using assms(2) by simp
  moreover have "tfp ''head_pan_link'' ?p = ?p"
    using assms(3) by (simp add: stamped_point_def)
  ultimately have "target g = ?p" by simp
  then show ?thesis
    using d by (intro exI [of _ d]) (simp add: stamped_point_def PolToCart_def Let_def)
qed

theorem goal_target_from_voted_direction_witness:
  "AudioCallback same_frame_transform True \<lparr>msg_angle = 90, msg_is_valid = True\<rparr>
     \<lparr>angle = replicate 20 90, buf = replicate 29 90 @ [45], counter = 30,
      ignore_inputs = False, initializtion = False\<rparr>
   = Inr (\<lparr>angle = [], buf = replicate 30 0, counter = 0,
            ignore_inputs = False, initializtion = False\<rparr>,
          [Publish (stamped_point 0 3), PublishMarker (arrow_marker 0 3),
           SendGoal \<lparr>target = stamped_point 0 3, min_duration = 0.5, max_velocity = 1\<rparr>,
           LogResult True, Sleep 2])
   \<and> same_frame_transform ''head_pan_link'' (stamped_point 0 3) = stamped_point 0 3
   \<and> (\<exists>d. GetMode (astype_int (fst (TemporalMedian 90 (replicate 20 90) FILTER_LENGTH)
                                   # butlast (replicate 29 90 @ [45]))) = Inr d
          \<and> \<lparr>point_x = 0, point_y = 3, point_z = 0\<rparr>
              = \<lparr>point_x = 3 * cos (real_of_int d * pi / 180),
                 point_y = 3 * sin (real_of_int d * pi / 180), point_z = 0\<rparr>
          \<and> PolToCart 3 (real_of_int d * pi / 180) = (0, 3))"
proof -
  have t: "\<forall>p. frame_id p = ''head_pan_link'' \<longrightarrow> same_frame_transform ''head_pan_link'' p = p"
    by (simp add: same_frame_transform_def)
  have m: "SendGoal \<lparr>target = stamped_point 0 3, min_duration = 0.5, max_velocity = 1\<rparr>
           \<in> set [Publish (stamped_point 0 3), PublishMarker (arrow_marker 0 3),
                  SendGoal \<lparr>target = stamped_point 0 3, min_duration = 0.5, max_velocity = 1\<rparr>,
                  LogResult True, Sleep 2]"
    by simp
  show ?thesis
    using goal_target_from_voted_direction [OF commit_state_step m t] commit_state_step
    by (simp add: stamped_point_def same_frame_transform_def)
qed

text \<open>
  C8. A sample received after initialization whose \<open>is_valid\<close> field is false is
  discarded: the callback returns normally, the controller (filter history, vote buffer,
  counter, flags) is exactly what it was, and nothing is sent to any collaborator.
\<close>

theorem invalid_sample_discarded:
  "\<not> initializtion s \<Longrightarrow> \<not> msg_is_valid msg \<Longrightarrow> AudioCallback tfp result msg s = Inr (s, [])"
  by (simp add: AudioCallback_def AudioCallback_body_def)

theorem invalid_sample_discarded_witness:
  "\<not> initializtion (Follower_init\<lparr>initializtion := False\<rparr>)
   \<and> \<not> msg_is_valid \<lparr>msg_angle = 90, msg_is_valid = False\<rparr>
   \<and> AudioCallback (\<lambda>f p. p) True \<lparr>msg_angle = 90, msg_is_valid = False\<rparr>
        (Follower_init\<lparr>initializtion := False\<rparr>)
      = Inr (Follower_init\<lparr>initializtion := False\<rparr>, [])"
  using invalid_sample_discarded
    [of "Follower_init\<lparr>initializtion := False\<rparr>" "\<lparr>msg_angle = 90, msg_is_valid = False\<rparr>"
        "\<lambda>f p. p" True]
  by simp

text \<open>
  C3. At startup the filter history is not empty: \<^verbatim>\<open>__init__\<close> sets it to
  \<^verbatim>\<open>np.zeros(1)\<close>, one stored 0. After the discarded first sample, a first valid sample
  of 90 degrees is filtered to 45, the median of 90 and that 0, and two values are stored.
\<close>

theorem startup_first_push_not_raw:
  "run tfp [(\<lparr>msg_angle = 0, msg_is_valid = True\<rparr>, True),
            (\<lparr>msg_angle = 90, msg_is_valid = True\<rparr>, True)] Follower_init
   = Inr (\<lparr>angle = [90, 0], buf = 45 # replicate 29 0, counter = 1,
           ignore_inputs = False, initializtion = False\<rparr>, [])"
  by (simp add: AudioCallback_def body_init body_listen Follower_init_def BUFFER_LENGTH_def
      TemporalMedian_snd TemporalMedian_fst FILTER_LENGTH_def np_median_pair
      butlast_replicate_same)

text \<open>
  C2. A sample delivered while a commit is in progress is not discarded. The node has
  processed thirty valid samples since startup and the thirty-first has committed: its
  callback holds the lock inside \<open>SetPointHead\<close>, with \<open>ignore_inputs\<close> set. A valid
  sample of 45 degrees is delivered now. Its callback cannot get the lock while the
  actuator has not reported: it waits. When the commit has completed, the flag is clear
  again, the waiting callback gets the lock and processes the sample: the filter history
  is 45, the newest vote is 45 and the counter is 1.
\<close>

theorem sample_during_commit_is_processed:
  "steps same_frame_transform
     (serial (\<lparr>msg_angle = 90, msg_is_valid = True\<rparr>
              # replicate 30 \<lparr>msg_angle = 90, msg_is_valid = True\<rparr>)
      @ [Deliver \<lparr>msg_angle = 90, msg_is_valid = True\<rparr>, Acquire 0]
      @ [Deliver \<lparr>msg_angle = 45, msg_is_valid = True\<rparr>]) node_init
   = Some \<lparr>follower = \<lparr>angle = replicate 20 90, buf = replicate 30 90, counter = 30,
                        ignore_inputs = True, initializtion = False\<rparr>,
           lock_held = True, in_wait = True,
           waiting = [\<lparr>msg_angle = 45, msg_is_valid = True\<rparr>],
           trace = [Publish (stamped_point 0 3), PublishMarker (arrow_marker 0 3),
                    SendGoal \<lparr>target = stamped_point 0 3,
                              min_duration = 0.5, max_velocity = 1\<rparr>]\<rparr>
   \<and> steps same_frame_transform
     (serial (\<lparr>msg_angle = 90, msg_is_valid = True\<rparr>
              # replicate 30 \<lparr>msg_angle = 90, msg_is_valid = True\<rparr>)
      @ [Deliver \<lparr>msg_angle = 90, msg_is_valid = True\<rparr>, Acquire 0]
      @ [Deliver \<lparr>msg_angle = 45, msg_is_valid = True\<rparr>, Acquire 0]) node_init
     = None
   \<and> steps same_frame_transform
     (serial (\<lparr>msg_angle = 90, msg_is_valid = True\<rparr>
              # replicate 30 \<lparr>msg_angle = 90, msg_is_valid = True\<rparr>)
      @ [Deliver \<lparr>msg_angle = 90, msg_is_valid = True\<rparr>, Acquire 0]
      @ [Deliver \<lparr>msg_angle = 45, msg_is_valid = True\<rparr>, Complete True, Acquire 0]) node_init
     = Some \<lparr>follower = \<lparr>angle = [45], buf = 45 # replicate 29 0, counter = 1,
                          ignore_inputs = False, initializtion = False\<rparr>,
             lock_held = False, in_wait = False, waiting = [],
             trace = [Publish (stamped_point 0 3), PublishMarker (arrow_marker 0 3),
                      SendGoal \<lparr>target = stamped_point 0 3,
                                min_duration = 0.5, max_velocity = 1\<rparr>,
                      LogResult True, Sleep 2]\<rparr>"
proof -
  have pre: "steps same_frame_transform
     (serial (\<lparr>msg_angle = 90, msg_is_valid = True\<rparr>
              # replicate 30 \<lparr>msg_angle = 90, msg_is_valid = True\<rparr>)
      @ [Deliver \<lparr>msg_angle = 90, msg_is_valid = True\<rparr>, Acquire 0]) node_init
   = Some \<lparr>follower = \<lparr>angle = replicate 20 90, buf = replicate 30 90, counter = 30,
                        ignore_inputs = True, initializtion = False\<rparr>,
           lock_held = True, in_wait = True, waiting = [],
           trace = [Publish (stamped_point 0 3), PublishMarker (arrow_marker 0 3),
                    SendGoal \<lparr>target = stamped_point 0 3,
                              min_duration = 0.5, max_velocity = 1\<rparr>]\<rparr>"
    using commit_in_progress [of same_frame_transform] by (simp add: same_frame_transform_def)
  have late: "AudioCallback_body (SetPointHead_send same_frame_transform)
                \<lparr>msg_angle = 45, msg_is_valid = True\<rparr>
                \<lparr>angle = [], buf = replicate 30 0, counter = 0,
                 ignore_inputs = False, initializtion = False\<rparr>
              = Inr (\<lparr>angle = [45], buf = 45 # replicate 29 0, counter = 1,
                      ignore_inputs = False, initializtion = False\<rparr>, [])"
    by (simp add: body_listen BUFFER_LENGTH_def TemporalMedian_snd TemporalMedian_fst
        FILTER_LENGTH_def np_median_single butlast_replicate_same)
  have eq: "steps same_frame_transform
     (serial (\<lparr>msg_angle = 90, msg_is_valid = True\<rparr>
              # replicate 30 \<lparr>msg_angle = 90, msg_is_valid = True\<rparr>)
      @ [Deliver \<lparr>msg_angle = 90, msg_is_valid = True\<rparr>, Acquire 0] @ rest) node_init
    = steps same_frame_transform rest
        \<lparr>follower = \<lparr>angle = replicate 20 90, buf = replicate 30 90, counter = 30,
                      ignore_inputs = True, initializtion = False\<rparr>,
         lock_held = True, in_wait = True, waiting = [],
         trace = [Publish (stamped_point 0 3), PublishMarker (arrow_marker 0 3),
                  SendGoal \<lparr>target = stamped_point 0 3,
                            min_duration = 0.5, max_velocity = 1\<rparr>]\<rparr>" for rest
    using pre by (simp only: append_assoc [symmetric] steps_append option.case)
  show ?thesis
    unfolding eq using late by (simp add: SetPointHead_done_def BUFFER_LENGTH_def)
qed

text \<open>
  C10. In every state the node reaches, whatever the order of deliveries, lock
  acquisitions and actuator reports, \<open>ignore_inputs\<close> is set exactly while a callback
  holds the lock inside the wait of \<open>SetPointHead\<close>. So a callback begins (gets the
  lock) only with the flag clear, and the flag is clear again when it has released the
  lock: at once if it did not commit, and when the actuator has reported if it did.
\<close>

theorem flag_clear_outside_commit:
  assumes "steps tfp acts node_init = Some n"
  shows "(ignore_inputs (follower n) \<longleftrightarrow> lock_held n \<and> in_wait n)
       \<and> (\<forall>i n'. step tfp (Acquire i) n = Some n' \<longrightarrow>
             \<not> ignore_inputs (follower n)
             \<and> (ignore_inputs (follower n') \<longleftrightarrow> lock_held n' \<and> in_wait n'))
       \<and> (\<forall>result n'. step tfp (Complete result) n = Some n' \<longrightarrow>
             \<not> lock_held n' \<and> \<not> ignore_inputs (follower n'))"
proof -
  have init: "ignore_inputs (follower node_init) \<longleftrightarrow> lock_held node_init \<and> in_wait node_init"
    by (simp add: node_init_def Follower_init_def)
  have inv: "ignore_inputs (follower n) \<longleftrightarrow> lock_held n \<and> in_wait n"
    by (rule steps_flag [OF init assms])
  have acq: "\<not> ignore_inputs (follower n)
             \<and> (ignore_inputs (follower n') \<longleftrightarrow> lock_held n' \<and> in_wait n')"
    if "step tfp (Acquire i) n = Some n'" for i n'
  proof -
    have "\<not> lock_held n" using that by (auto split: if_splits)
    then show ?thesis using inv step_flag [OF inv that] by simp
  qed
  have com: "\<not> lock_held n' \<and> \<not> ignore_inputs (follower n')"
    if "step tfp (Complete result) n = Some n'" for result n'
    using that by (auto simp: SetPointHead_done_def split: if_splits)
  show ?thesis using inv acq com by blast
qed

theorem flag_clear_outside_commit_witness:
  "steps same_frame_transform
     (serial (\<lparr>msg_angle = 90, msg_is_valid = True\<rparr>
              # replicate 30 \<lparr>msg_angle = 90, msg_is_valid = True\<rparr>)
      @ [Deliver \<lparr>msg_angle = 90, msg_is_valid = True\<rparr>, Acquire 0]) node_init
   = Some \<lparr>follower = \<lparr>angle = replicate 20 90, buf = replicate 30 90, counter = 30,
                        ignore_inputs = True, initializtion = False\<rparr>,
           lock_held = True, in_wait = True, waiting = [],
           trace = [Publish (stamped_point 0 3), PublishMarker (arrow_marker 0 3),
                    SendGoal \<lparr>target = stamped_point 0 3,
                              min_duration = 0.5, max_velocity = 1\<rparr>]\<rparr>
   \<and> step same_frame_transform (Complete True)
        \<lparr>follower = \<lparr>angle = replicate 20 90, buf = replicate 30 90, counter = 30,
                      ignore_inputs = True, initializtion = False\<rparr>,
         lock_held = True, in_wait = True, waiting = [],
         trace = [Publish (stamped_point 0 3), PublishMarker (arrow_marker 0 3),
                  SendGoal \<lparr>target = stamped_point 0 3,
                            min_duration = 0.5, max_velocity = 1\<rparr>]\<rparr>
     = Some \<lparr>follower = \<lparr>angle = [], buf = replicate 30 0, counter = 0,
                          ignore_inputs = False, initializtion = False\<rparr>,
             lock_held = False, in_wait = False, waiting = [],
             trace = [Publish (stamped_point 0 3), PublishMarker (arrow_marker 0 3),
                      SendGoal \<lparr>target = stamped_point 0 3,
                                min_duration = 0.5, max_velocity = 1\<rparr>,
                      LogResult True, Sleep 2]\<rparr>
   \<and> step same_frame_transform (Acquire 0)
        \<lparr>follower = \<lparr>angle = replicate 20 90, buf = replicate 30 90, counter = 30,
                      ignore_inputs = True, initializtion = False\<rparr>,
         lock_held = True, in_wait = True, waiting = [],
         trace = [Publish (stamped_point 0 3), PublishMarker (arrow_marker 0 3),
                  SendGoal \<lparr>target = stamped_point 0 3,
                            min_duration = 0.5, max_velocity = 1\<rparr>]\<rparr>
     = None"
proof -
  have pre: "steps same_frame_transform
     (serial (\<lparr>msg_angle = 90, msg_is_valid = True\<rparr>
              # replicate 30 \<lparr>msg_angle = 90, msg_is_valid = True\<rparr>)
      @ [Deliver \<lparr>msg_angle = 90, msg_is_valid = True\<rparr>, Acquire 0]) node_init
   = Some \<lparr>follower = \<lparr>angle = replicate 20 90, buf = replicate 30 90, counter = 30,
                        ignore_inputs = True, initializtion = False\<rparr>,
           lock_held = True, in_wait = True, waiting = [],
           trace = [Publish (stamped_point 0 3), PublishMarker (arrow_marker 0 3),
                    SendGoal \<lparr>target = stamped_point 0 3,
                              min_duration = 0.5, max_velocity = 1\<rparr>]\<rparr>"
    using commit_in_progress [of same_frame_transform] by (simp add: same_frame_transform_def)
  show ?thesis
    using flag_clear_outside_commit [OF pre] pre
    by (simp add: SetPointHead_done_def BUFFER_LENGTH_def)
qed

end
